theory Spec2Isabelle
  imports
    Complex_Main
    "HOL-Library.Char_ord"
    "HOL-Library.Option_ord"
    "HOL-Library.List_Lexorder"
    "HOL-Library.Product_Lexorder"
    "HOL-Library.Multiset"
    "HOL-Library.Sublist"
begin

section \<open>ToluStock: the stock ledger of \<^verbatim>\<open>src/logic\<close>\<close>

text \<open>
  A shallow embedding of \<^verbatim>\<open>src/logic/utils.py\<close> (\<^verbatim>\<open>generate_sku\<close>),
  \<^verbatim>\<open>src/logic/user.py\<close> (\<^verbatim>\<open>has_permission\<close>), \<^verbatim>\<open>src/logic/db.py\<close> (the
  schema and the three \<^verbatim>\<open>execute_*\<close> primitives) and \<^verbatim>\<open>src/logic/stock_logic.py\<close>
  (\<^verbatim>\<open>StockManager\<close>), with the two dialogs of \<^verbatim>\<open>src/ui/stock.py\<close> that call it.

  Python \<^verbatim>\<open>str\<close> values are modelled as ASCII strings: \<^verbatim>\<open>str.isalnum\<close> and
  \<^verbatim>\<open>str.upper\<close> are given on the ASCII letters and digits only, and the theorems about
  \<^verbatim>\<open>generate_sku\<close> are stated for ASCII input.
\<close>

subsection \<open>Strings (\<^verbatim>\<open>utils.py\<close>)\<close>

definition ascii_lowercase :: string where
  "ascii_lowercase = ''abcdefghijklmnopqrstuvwxyz''"

definition ascii_uppercase :: string where
  "ascii_uppercase = ''ABCDEFGHIJKLMNOPQRSTUVWXYZ''"

definition digits :: string where
  "digits = ''0123456789''"

definition is_ascii :: "char \<Rightarrow> bool" where
  "is_ascii c = ((of_char c :: nat) < 128)"

text \<open>\<^verbatim>\<open>c.isalnum()\<close> on an ASCII character.\<close>

definition isalnum :: "char \<Rightarrow> bool" where
  "isalnum c = (c \<in> set (ascii_lowercase @ ascii_uppercase @ digits))"

text \<open>\<^verbatim>\<open>s.upper()\<close> on an ASCII string, character by character.\<close>

definition upper_char :: "char \<Rightarrow> char" where
  "upper_char c =
     (case map_of (zip ascii_lowercase ascii_uppercase) c of Some u \<Rightarrow> u | None \<Rightarrow> c)"

definition upper :: "string \<Rightarrow> string" where
  "upper s = map upper_char s"

text \<open>\<^verbatim>\<open>s.strip()\<close>: the ASCII characters for which \<^verbatim>\<open>str.isspace\<close> holds are removed at both ends.\<close>

definition isspace :: "char \<Rightarrow> bool" where
  "isspace c = ((of_char c :: nat) \<in> {9, 10, 11, 12, 13, 28, 29, 30, 31, 32})"

definition strip :: "string \<Rightarrow> string" where
  "strip s = rev (dropWhile isspace (rev (dropWhile isspace s)))"

subsection \<open>Time\<close>

record datetime =
  dt_year :: nat
  dt_month :: nat
  dt_day :: nat
  dt_hour :: nat
  dt_minute :: nat
  dt_second :: nat

definition two_digits :: "nat \<Rightarrow> string" where
  "two_digits n = [digits ! (n div 10 mod 10), digits ! (n mod 10)]"

text \<open>\<^verbatim>\<open>datetime.now().strftime("%m%d%H%M")\<close>: four zero-padded two-digit fields.\<close>

definition strftime_mdHM :: "datetime \<Rightarrow> string" where
  "strftime_mdHM t =
     two_digits (dt_month t) @ two_digits (dt_day t) @ two_digits (dt_hour t)
       @ two_digits (dt_minute t)"

subsection \<open>\<^verbatim>\<open>generate_sku\<close>\<close>

text \<open>
  \<^verbatim>\<open>
  category_prefix = category[:3].upper() if category else "GEN"
  product_prefix = ''.join(c for c in product_name[:4] if c.isalnum()).upper()
  timestamp = datetime.now().strftime("%m%d%H%M")
  return f"{category_prefix}-{product_prefix}-{timestamp}"
  \<close>
  The clock is the extra argument.
\<close>

definition category_prefix :: "string \<Rightarrow> string" where
  "category_prefix category = (if category \<noteq> [] then upper (take 3 category) else ''GEN'')"

definition product_prefix :: "string \<Rightarrow> string" where
  "product_prefix product_name = upper (filter isalnum (take 4 product_name))"

definition generate_sku :: "datetime \<Rightarrow> string \<Rightarrow> string \<Rightarrow> string" where
  "generate_sku t product_name category =
     category_prefix category @ ''-'' @ product_prefix product_name @ ''-'' @ strftime_mdHM t"

subsection \<open>Rows and the store (\<^verbatim>\<open>db.py\<close>)\<close>

text \<open>
  The tables follow \<^verbatim>\<open>init_database\<close>; a nullable column is an option. \<^verbatim>\<open>unit_price\<close>
  is only stored and returned, never computed with, so its \<^verbatim>\<open>REAL\<close> is a rational.
  Both tables are \<^verbatim>\<open>AUTOINCREMENT\<close>: the store keeps the largest rowid ever used.
\<close>

record product =
  p_id :: int
  p_name :: string
  p_category_id :: "int option"
  p_sku :: "string option"
  p_description :: "string option"
  p_unit_price :: rat
  p_quantity :: int
  p_min_stock_level :: "int option"
  p_supplier_id :: "int option"
  p_created_at :: datetime
  p_updated_at :: datetime

record movement =
  m_id :: int
  m_product_id :: int
  m_movement_type :: string
  m_quantity :: int
  m_reference_id :: "string option"
  m_notes :: "string option"
  m_user_id :: "int option"
  m_created_at :: datetime

record category =
  c_id :: int
  c_name :: string

record supplier =
  s_id :: int
  s_name :: string

record user =
  u_id :: int
  u_role :: string

text \<open>
  The world an operation runs in: the tables, the two rowid sequences, the session of
  \<^verbatim>\<open>user_manager\<close>, the clock, and the statements that are going to fail. Every call
  of \<^verbatim>\<open>db.execute_query\<close>, \<^verbatim>\<open>execute_update\<close> or \<^verbatim>\<open>execute_insert\<close> takes the head of
  \<open>faults\<close>: \<open>True\<close> makes the statement raise (a locked or full database, a number
  that does not fit a 64-bit \<^verbatim>\<open>INTEGER\<close>) without changing a table; an empty list means
  that no statement fails.
\<close>

record world =
  products :: "product list"
  stock_movements :: "movement list"
  categories :: "category list"
  suppliers :: "supplier list"
  products_seq :: int
  stock_movements_seq :: int
  current_user :: "user option"
  now :: datetime
  faults :: "bool list"

datatype sqlite_error = OperationalError | IntegrityError

definition next_fault :: "world \<Rightarrow> bool \<times> world" where
  "next_fault w = (case faults w of [] \<Rightarrow> (False, w) | f # fs \<Rightarrow> (f, w\<lparr>faults := fs\<rparr>))"

text \<open>
  The three primitives of \<^verbatim>\<open>DatabaseManager\<close>. Each opens its own connection and commits
  on its own; the SQL text is the function \<open>q\<close> on the tables.
\<close>

definition execute_query :: "(world \<Rightarrow> 'a list) \<Rightarrow> world \<Rightarrow> (sqlite_error + 'a list) \<times> world" where
  "execute_query q w =
     (case next_fault w of
        (True, w1) \<Rightarrow> (Inl OperationalError, w1)
      | (False, w1) \<Rightarrow> (Inr (q w1), w1))"

definition execute_update ::
  "(world \<Rightarrow> sqlite_error + nat \<times> world) \<Rightarrow> world \<Rightarrow> (sqlite_error + nat) \<times> world" where
  "execute_update q w =
     (case next_fault w of
        (True, w1) \<Rightarrow> (Inl OperationalError, w1)
      | (False, w1) \<Rightarrow>
          (case q w1 of Inl e \<Rightarrow> (Inl e, w1) | Inr (rowcount, w2) \<Rightarrow> (Inr rowcount, w2)))"

definition execute_insert ::
  "(world \<Rightarrow> sqlite_error + int \<times> world) \<Rightarrow> world \<Rightarrow> (sqlite_error + int) \<times> world" where
  "execute_insert q w =
     (case next_fault w of
        (True, w1) \<Rightarrow> (Inl OperationalError, w1)
      | (False, w1) \<Rightarrow>
          (case q w1 of Inl e \<Rightarrow> (Inl e, w1) | Inr (lastrowid, w2) \<Rightarrow> (Inr lastrowid, w2)))"

text \<open>The rowid of an \<^verbatim>\<open>AUTOINCREMENT\<close> insert: one more than every rowid used so far.\<close>

definition next_rowid :: "int \<Rightarrow> int list \<Rightarrow> int" where
  "next_rowid seq ids = fold max ids seq + 1"

subsection \<open>The SQL statements of \<^verbatim>\<open>stock_logic.py\<close>\<close>

text \<open>
  The \<^verbatim>\<open>LEFT JOIN\<close>s of the \<^verbatim>\<open>SELECT\<close>s add the display columns \<^verbatim>\<open>category_name\<close> and
  \<^verbatim>\<open>supplier_name\<close>; they join on a primary key, so they neither drop nor repeat a
  product row, and the rows here are the product rows.
\<close>

definition sql_select_product_by_id :: "int \<Rightarrow> world \<Rightarrow> product list" where
  "sql_select_product_by_id product_id w = filter (\<lambda>p. p_id p = product_id) (products w)"

definition sql_select_product_by_sku :: "string \<Rightarrow> world \<Rightarrow> product list" where
  "sql_select_product_by_sku sku w = filter (\<lambda>p. p_sku p = Some sku) (products w)"

definition sql_select_category_name :: "int \<Rightarrow> world \<Rightarrow> string list" where
  "sql_select_category_name category_id w =
     map c_name (filter (\<lambda>c. c_id c = category_id) (categories w))"

text \<open>\<^verbatim>\<open>INSERT INTO products\<close>; \<^verbatim>\<open>sku TEXT UNIQUE\<close> rejects a second row with the same code.\<close>

definition sql_insert_product ::
  "string \<Rightarrow> int option \<Rightarrow> string \<Rightarrow> string option \<Rightarrow> rat \<Rightarrow> int \<Rightarrow> int \<Rightarrow> int option
     \<Rightarrow> world \<Rightarrow> sqlite_error + int \<times> world" where
  "sql_insert_product name category_id sku description unit_price quantity min_stock_level
       supplier_id w =
     (if \<exists>p \<in> set (products w). p_sku p = Some sku then Inl IntegrityError
      else
        let rowid = next_rowid (products_seq w) (map p_id (products w));
            row = \<lparr>p_id = rowid, p_name = name, p_category_id = category_id, p_sku = Some sku,
                   p_description = description, p_unit_price = unit_price,
                   p_quantity = quantity, p_min_stock_level = Some min_stock_level,
                   p_supplier_id = supplier_id, p_created_at = now w, p_updated_at = now w\<rparr>
        in Inr (rowid, w\<lparr>products := products w @ [row], products_seq := rowid\<rparr>))"

definition sql_insert_movement ::
  "int \<Rightarrow> string \<Rightarrow> int \<Rightarrow> string option \<Rightarrow> string option \<Rightarrow> int option
     \<Rightarrow> world \<Rightarrow> sqlite_error + int \<times> world" where
  "sql_insert_movement product_id movement_type quantity reference_id notes user_id w =
     (let rowid = next_rowid (stock_movements_seq w) (map m_id (stock_movements w));
          row = \<lparr>m_id = rowid, m_product_id = product_id, m_movement_type = movement_type,
                 m_quantity = quantity, m_reference_id = reference_id, m_notes = notes,
                 m_user_id = user_id, m_created_at = now w\<rparr>
      in Inr (rowid, w\<lparr>stock_movements := stock_movements w @ [row],
                        stock_movements_seq := rowid\<rparr>))"

text \<open>\<^verbatim>\<open>SELECT COUNT(*) as count FROM stock_movements WHERE product_id = ?\<close>: one row.\<close>

definition sql_count_movements :: "int \<Rightarrow> world \<Rightarrow> nat list" where
  "sql_count_movements product_id w =
     [length (filter (\<lambda>m. m_product_id m = product_id) (stock_movements w))]"

definition sql_delete_product :: "int \<Rightarrow> world \<Rightarrow> sqlite_error + nat \<times> world" where
  "sql_delete_product product_id w =
     Inr (length (filter (\<lambda>p. p_id p = product_id) (products w)),
          w\<lparr>products := filter (\<lambda>p. p_id p \<noteq> product_id) (products w)\<rparr>)"

text \<open>\<^verbatim>\<open>UPDATE products SET quantity = ?, updated_at = CURRENT_TIMESTAMP WHERE id = ?\<close>\<close>

definition sql_update_quantity :: "int \<Rightarrow> int \<Rightarrow> world \<Rightarrow> sqlite_error + nat \<times> world" where
  "sql_update_quantity new_quantity product_id w =
     Inr (length (filter (\<lambda>p. p_id p = product_id) (products w)),
          w\<lparr>products :=
               map (\<lambda>p. if p_id p = product_id
                         then p\<lparr>p_quantity := new_quantity, p_updated_at := now w\<rparr> else p)
                   (products w)\<rparr>)"

text \<open>
  The keyword arguments of \<^verbatim>\<open>update_product(product_id, **kwargs)\<close>. A keyword that
  names one of the seven columns carries a value of the column's type; any other keyword
  (\<^verbatim>\<open>quantity=7\<close>, \<^verbatim>\<open>id=3\<close>, a misspelling) is \<open>Kw_other\<close> with its name and value.
\<close>

datatype pyval = PNone | PInt int | PFloat rat | PStr string

datatype kwarg =
    Kw_name string
  | Kw_category_id "int option"
  | Kw_sku "string option"
  | Kw_description "string option"
  | Kw_unit_price rat
  | Kw_min_stock_level "int option"
  | Kw_supplier_id "int option"
  | Kw_other string pyval

fun field_of :: "kwarg \<Rightarrow> string" where
  "field_of (Kw_name v) = ''name''"
| "field_of (Kw_category_id v) = ''category_id''"
| "field_of (Kw_sku v) = ''sku''"
| "field_of (Kw_description v) = ''description''"
| "field_of (Kw_unit_price v) = ''unit_price''"
| "field_of (Kw_min_stock_level v) = ''min_stock_level''"
| "field_of (Kw_supplier_id v) = ''supplier_id''"
| "field_of (Kw_other field v) = field"

text \<open>One \<^verbatim>\<open>field = ?\<close> of the \<^verbatim>\<open>SET\<close> list, applied to a row.\<close>

fun assign :: "kwarg \<Rightarrow> product \<Rightarrow> product" where
  "assign (Kw_name v) p = p\<lparr>p_name := v\<rparr>"
| "assign (Kw_category_id v) p = p\<lparr>p_category_id := v\<rparr>"
| "assign (Kw_sku v) p = p\<lparr>p_sku := v\<rparr>"
| "assign (Kw_description v) p = p\<lparr>p_description := v\<rparr>"
| "assign (Kw_unit_price v) p = p\<lparr>p_unit_price := v\<rparr>"
| "assign (Kw_min_stock_level v) p = p\<lparr>p_min_stock_level := v\<rparr>"
| "assign (Kw_supplier_id v) p = p\<lparr>p_supplier_id := v\<rparr>"
| "assign (Kw_other field v) p = p"

text \<open>
  \<^verbatim>\<open>UPDATE products SET f1 = ?, ..., updated_at = CURRENT_TIMESTAMP WHERE id = ?\<close>.
  When \<^verbatim>\<open>sku\<close> is assigned, the \<^verbatim>\<open>UNIQUE\<close> index rejects a code that another row has.
\<close>

definition sql_update_product ::
  "kwarg list \<Rightarrow> int \<Rightarrow> world \<Rightarrow> sqlite_error + nat \<times> world" where
  "sql_update_product updates product_id w =
     (let rows = map (\<lambda>p. if p_id p = product_id
                            then (fold assign updates p)\<lparr>p_updated_at := now w\<rparr> else p)
                     (products w)
      in if ''sku'' \<in> set (map field_of updates) \<and>
            (\<exists>r \<in> set rows. p_id r = product_id \<and> p_sku r \<noteq> None \<and>
               (\<exists>q \<in> set rows. p_id q \<noteq> product_id \<and> p_sku q = p_sku r))
         then Inl IntegrityError
         else Inr (length (filter (\<lambda>p. p_id p = product_id) (products w)),
                   w\<lparr>products := rows\<rparr>))"




subsection \<open>\<^verbatim>\<open>UserManager.has_permission\<close> (\<^verbatim>\<open>user.py\<close>)\<close>

definition user_permissions :: "string list" where
  "user_permissions =
     [''view_stock'', ''view_customers'', ''view_suppliers'', ''view_reports'', ''export_data'']"

definition manager_permissions :: "string list" where
  "manager_permissions = user_permissions @
     [''add_stock'', ''edit_stock'', ''delete_stock'',
      ''add_customers'', ''edit_customers'', ''delete_customers'',
      ''add_suppliers'', ''edit_suppliers'', ''delete_suppliers'',
      ''backup_data'', ''manage_settings'']"

definition has_permission :: "world \<Rightarrow> string \<Rightarrow> bool" where
  "has_permission w permission =
     (case current_user w of
        None \<Rightarrow> False
      | Some u \<Rightarrow>
          if u_role u = ''admin'' then True
          else if u_role u = ''manager'' then permission \<in> set manager_permissions
          else if u_role u = ''user'' then permission \<in> set user_permissions
          else False)"

subsection \<open>\<^verbatim>\<open>StockManager\<close> (\<^verbatim>\<open>stock_logic.py\<close>)\<close>

text \<open>
  Every method is one \<^verbatim>\<open>try\<close> block whose \<^verbatim>\<open>except Exception\<close> prints and returns
  \<^verbatim>\<open>None\<close>, \<^verbatim>\<open>False\<close> or \<^verbatim>\<open>[]\<close>: a raising statement is the \<open>Inl\<close> branch below.
\<close>

definition get_product_by_id :: "int \<Rightarrow> world \<Rightarrow> product option \<times> world" where
  "get_product_by_id product_id w =
     (case execute_query (sql_select_product_by_id product_id) w of
        (Inl e, w1) \<Rightarrow> (None, w1)
      | (Inr rows, w1) \<Rightarrow> ((case rows of [] \<Rightarrow> None | p # _ \<Rightarrow> Some p), w1))"

definition get_product_by_sku :: "string \<Rightarrow> world \<Rightarrow> product option \<times> world" where
  "get_product_by_sku sku w =
     (case execute_query (sql_select_product_by_sku sku) w of
        (Inl e, w1) \<Rightarrow> (None, w1)
      | (Inr rows, w1) \<Rightarrow> ((case rows of [] \<Rightarrow> None | p # _ \<Rightarrow> Some p), w1))"

definition record_stock_movement ::
  "int \<Rightarrow> string \<Rightarrow> int \<Rightarrow> string option \<Rightarrow> string option \<Rightarrow> world \<Rightarrow> int option \<times> world" where
  "record_stock_movement product_id movement_type quantity reference_id notes w =
     (let user_id = (case current_user w of Some u \<Rightarrow> Some (u_id u) | None \<Rightarrow> None)
      in case execute_insert
                (sql_insert_movement product_id movement_type quantity reference_id notes user_id) w of
           (Inl e, w1) \<Rightarrow> (None, w1)
         | (Inr movement_id, w1) \<Rightarrow> (Some movement_id, w1))"

text \<open>
  The first part of \<^verbatim>\<open>add_product\<close>: \<^verbatim>\<open>if not sku\<close> holds for \<^verbatim>\<open>None\<close> and for the empty
  string, \<^verbatim>\<open>if category_id\<close> fails for \<^verbatim>\<open>None\<close> and for 0.
\<close>

definition resolve_sku ::
  "string \<Rightarrow> int option \<Rightarrow> string option \<Rightarrow> world \<Rightarrow> (sqlite_error + string) \<times> world" where
  "resolve_sku name category_id sku w =
     (if sku = None \<or> sku = Some []
      then
        (if category_id \<noteq> None \<and> category_id \<noteq> Some 0
         then
           (case execute_query (sql_select_category_name (the category_id)) w of
              (Inl e, w1) \<Rightarrow> (Inl e, w1)
            | (Inr cats, w1) \<Rightarrow>
                (Inr (generate_sku (now w1) name (case cats of [] \<Rightarrow> [] | c # _ \<Rightarrow> c)), w1))
         else (Inr (generate_sku (now w) name []), w))
      else (Inr (the sku), w))"

definition add_product ::
  "string \<Rightarrow> int option \<Rightarrow> string option \<Rightarrow> rat \<Rightarrow> int \<Rightarrow> int \<Rightarrow> int option \<Rightarrow> string option
     \<Rightarrow> world \<Rightarrow> int option \<times> world" where
  "add_product name category_id description unit_price quantity min_stock_level supplier_id sku w =
     (if \<not> has_permission w ''add_stock'' then (None, w)
      else
        case resolve_sku name category_id sku w of
          (Inl e, w1) \<Rightarrow> (None, w1)
        | (Inr sku', w1) \<Rightarrow>
            (case get_product_by_sku sku' w1 of
               (Some existing, w2) \<Rightarrow> (None, w2)
             | (None, w2) \<Rightarrow>
                 (case execute_insert
                         (sql_insert_product name category_id sku' description unit_price
                            quantity min_stock_level supplier_id) w2 of
                    (Inl e, w3) \<Rightarrow> (None, w3)
                  | (Inr product_id, w3) \<Rightarrow>
                      if quantity > 0
                      then (Some product_id,
                            snd (record_stock_movement product_id ''in'' quantity
                                   (Some ''Initial stock'') (Some ''Initial inventory'') w3))
                      else (Some product_id, w3))))"

definition valid_fields :: "string list" where
  "valid_fields =
     [''name'', ''category_id'', ''sku'', ''description'', ''unit_price'',
      ''min_stock_level'', ''supplier_id'']"


definition update_product :: "int \<Rightarrow> kwarg list \<Rightarrow> world \<Rightarrow> bool \<times> world" where
  "update_product product_id kwargs w =
     (if \<not> has_permission w ''edit_stock'' then (False, w)
      else
        let updates = filter (\<lambda>kw. field_of kw \<in> set valid_fields) kwargs
        in if updates = [] then (False, w)
           else
             case execute_update (sql_update_product updates product_id) w of
               (Inl e, w1) \<Rightarrow> (False, w1)
             | (Inr rows_affected, w1) \<Rightarrow> (rows_affected > 0, w1))"

definition delete_product :: "int \<Rightarrow> world \<Rightarrow> bool \<times> world" where
  "delete_product product_id w =
     (if \<not> has_permission w ''delete_stock'' then (False, w)
      else
        case execute_query (sql_count_movements product_id) w of
          (Inl e, w1) \<Rightarrow> (False, w1)
        | (Inr movements, w1) \<Rightarrow>
            if (case movements of [] \<Rightarrow> False | cnt # _ \<Rightarrow> cnt > 0) then (False, w1)
            else
              case execute_update (sql_delete_product product_id) w1 of
                (Inl e, w2) \<Rightarrow> (False, w2)
              | (Inr rows_affected, w2) \<Rightarrow> (rows_affected > 0, w2))"

definition adjust_stock :: "int \<Rightarrow> int \<Rightarrow> string option \<Rightarrow> world \<Rightarrow> bool \<times> world" where
  "adjust_stock product_id new_quantity reason w =
     (if \<not> has_permission w ''edit_stock'' then (False, w)
      else
        case get_product_by_id product_id w of
          (None, w1) \<Rightarrow> (False, w1)
        | (Some product, w1) \<Rightarrow>
            let current_quantity = p_quantity product;
                difference = new_quantity - current_quantity
            in if difference = 0 then (True, w1)
               else
                 case execute_update (sql_update_quantity new_quantity product_id) w1 of
                   (Inl e, w2) \<Rightarrow> (False, w2)
                 | (Inr rows_affected, w2) \<Rightarrow>
                     if rows_affected > 0
                     then (True,
                           snd (record_stock_movement product_id
                                  (if difference > 0 then ''in'' else ''out'') \<bar>difference\<bar>
                                  (Some ''adjustment'')
                                  (if reason = None \<or> reason = Some []
                                   then Some ''Stock adjustment'' else reason) w2))
                     else (False, w2))"


subsection \<open>The dialogs of \<^verbatim>\<open>ui/stock.py\<close> that call the engine\<close>

text \<open>
  The widgets are left out: a dialog function takes what the form holds (numbers after
  \<^verbatim>\<open>safe_cast_int\<close> and \<^verbatim>\<open>safe_cast_float\<close>) and returns the message box it shows.
\<close>

datatype messagebox = Showerror string string | Showinfo string string

definition sql_select_categories :: "world \<Rightarrow> category list" where
  "sql_select_categories w = sort_key c_name (categories w)"

definition get_categories :: "world \<Rightarrow> category list \<times> world" where
  "get_categories w =
     (case execute_query sql_select_categories w of
        (Inl e, w1) \<Rightarrow> ([], w1)
      | (Inr rows, w1) \<Rightarrow> (rows, w1))"

definition sql_select_suppliers :: "world \<Rightarrow> supplier list" where
  "sql_select_suppliers w = sort_key s_name (suppliers w)"

definition get_all_suppliers :: "world \<Rightarrow> supplier list \<times> world" where
  "get_all_suppliers w =
     (if \<not> has_permission w ''view_suppliers'' then ([], w)
      else
        case execute_query sql_select_suppliers w of
          (Inl e, w1) \<Rightarrow> ([], w1)
        | (Inr rows, w1) \<Rightarrow> (rows, w1))"

text \<open>\<^verbatim>\<open>StockAdjustmentDialog.adjust_stock\<close>\<close>

definition dialog_adjust_stock ::
  "product \<Rightarrow> int \<Rightarrow> string \<Rightarrow> string \<Rightarrow> world \<Rightarrow> messagebox \<times> world" where
  "dialog_adjust_stock product new_quantity reason notes_text w =
     (if new_quantity < 0 then (Showerror ''Error'' ''Quantity cannot be negative.'', w)
      else
        let notes = strip notes_text
        in case adjust_stock (p_id product) new_quantity (Some (reason @ '': '' @ notes)) w of
             (True, w1) \<Rightarrow> (Showinfo ''Success'' ''Stock adjusted successfully.'', w1)
           | (False, w1) \<Rightarrow> (Showerror ''Error'' ''Failed to adjust stock.'', w1))"

text \<open>\<^verbatim>\<open>ProductDialog.save_product\<close>; \<open>product\<close> is \<^verbatim>\<open>self.product\<close>, present when editing.\<close>

record product_form =
  f_name :: string
  f_sku :: string
  f_category :: string
  f_description :: string
  f_unit_price :: rat
  f_quantity :: int
  f_min_stock_level :: int
  f_supplier :: string

definition lookup_category_id :: "string \<Rightarrow> world \<Rightarrow> int option \<times> world" where
  "lookup_category_id category_name w =
     (if category_name \<noteq> []
      then (case get_categories w of
              (cats, w1) \<Rightarrow> (map_option c_id (find (\<lambda>cat. c_name cat = category_name) cats), w1))
      else (None, w))"

definition lookup_supplier_id :: "string \<Rightarrow> world \<Rightarrow> int option \<times> world" where
  "lookup_supplier_id supplier_name w =
     (if supplier_name \<noteq> []
      then (case get_all_suppliers w of
              (sups, w1) \<Rightarrow> (map_option s_id (find (\<lambda>sup. s_name sup = supplier_name) sups), w1))
      else (None, w))"

definition or_None :: "string \<Rightarrow> string option" where
  "or_None s = (if s = [] then None else Some s)"

definition save_product :: "product option \<Rightarrow> product_form \<Rightarrow> world \<Rightarrow> messagebox \<times> world" where
  "save_product product form w =
     (let name = strip (f_name form)
      in if name = [] then (Showerror ''Validation Error'' ''Product name is required.'', w)
         else if f_unit_price form < 0
         then (Showerror ''Validation Error'' ''Unit price must be non-negative.'', w)
         else if f_quantity form < 0
         then (Showerror ''Validation Error'' ''Quantity must be non-negative.'', w)
         else
           case lookup_category_id (f_category form) w of
             (category_id, w1) \<Rightarrow>
               (case lookup_supplier_id (f_supplier form) w1 of
                  (supplier_id, w2) \<Rightarrow>
                    let description = strip (f_description form)
                    in case product of
                         Some p \<Rightarrow>
                           (case update_product (p_id p)
                                   [Kw_name name, Kw_category_id category_id,
                                    Kw_sku (or_None (f_sku form)),
                                    Kw_description (or_None description),
                                    Kw_unit_price (f_unit_price form),
                                    Kw_min_stock_level (Some (f_min_stock_level form)),
                                    Kw_supplier_id supplier_id] w2 of
                              (True, w3) \<Rightarrow> (Showinfo ''Success'' ''Product updated successfully.'', w3)
                            | (False, w3) \<Rightarrow> (Showerror ''Error'' ''Failed to update product.'', w3))
                       | None \<Rightarrow>
                           (case add_product name category_id (or_None description)
                                   (f_unit_price form) (f_quantity form) (f_min_stock_level form)
                                   supplier_id (or_None (f_sku form)) w2 of
                              (Some product_id, w3) \<Rightarrow>
                                if product_id \<noteq> 0
                                then (Showinfo ''Success'' ''Product added successfully.'', w3)
                                else (Showerror ''Error'' ''Failed to add product.'', w3)
                            | (None, w3) \<Rightarrow> (Showerror ''Error'' ''Failed to add product.'', w3))))"

subsection \<open>The ledger\<close>

text \<open>
  The net of the movements of one product: the quantities of its \<^verbatim>\<open>in\<close> rows minus the
  quantities of its \<^verbatim>\<open>out\<close> rows.
\<close>

definition movements_total :: "string \<Rightarrow> int \<Rightarrow> movement list \<Rightarrow> int" where
  "movements_total movement_type product_id ms =
     sum_list (map m_quantity
        (filter (\<lambda>m. m_product_id m = product_id \<and> m_movement_type m = movement_type) ms))"

definition net_movements :: "int \<Rightarrow> movement list \<Rightarrow> int" where
  "net_movements product_id ms =
     movements_total ''in'' product_id ms - movements_total ''out'' product_id ms"

definition ledger_consistent :: "world \<Rightarrow> bool" where
  "ledger_consistent w =
     (\<forall>p \<in> set (products w). p_quantity p = net_movements (p_id p) (stock_movements w))"

text \<open>The movement row that \<^verbatim>\<open>adjust_stock\<close> records for a difference.\<close>

definition adjustment_row :: "world \<Rightarrow> int \<Rightarrow> int \<Rightarrow> string option \<Rightarrow> movement" where
  "adjustment_row w product_id difference reason =
     \<lparr>m_id = next_rowid (stock_movements_seq w) (map m_id (stock_movements w)),
      m_product_id = product_id,
      m_movement_type = (if difference > 0 then ''in'' else ''out''),
      m_quantity = \<bar>difference\<bar>,
      m_reference_id = Some ''adjustment'',
      m_notes = (if reason = None \<or> reason = Some [] then Some ''Stock adjustment'' else reason),
      m_user_id = (case current_user w of Some u \<Rightarrow> Some (u_id u) | None \<Rightarrow> None),
      m_created_at = now w\<rparr>"







subsection \<open>Sample data\<close>

definition t0 :: datetime where
  "t0 = \<lparr>dt_year = 2024, dt_month = 3, dt_day = 7, dt_hour = 14, dt_minute = 5, dt_second = 0\<rparr>"

definition t1 :: datetime where
  "t1 = \<lparr>dt_year = 2024, dt_month = 3, dt_day = 8, dt_hour = 9, dt_minute = 30, dt_second = 0\<rparr>"

definition admin :: user where
  "admin = \<lparr>u_id = 1, u_role = ''admin''\<rparr>"

definition widget :: "int \<Rightarrow> product" where
  "widget q =
     \<lparr>p_id = 1, p_name = ''Widget'', p_category_id = None, p_sku = Some ''GEN-WIDG-03071405'',
      p_description = None, p_unit_price = 10, p_quantity = q, p_min_stock_level = Some 5,
      p_supplier_id = None, p_created_at = t0, p_updated_at = t0\<rparr>"

definition gadget :: "int \<Rightarrow> product" where
  "gadget q =
     \<lparr>p_id = 2, p_name = ''Gadget'', p_category_id = None, p_sku = Some ''GEN-GADG-03071405'',
      p_description = None, p_unit_price = 4, p_quantity = q, p_min_stock_level = Some 0,
      p_supplier_id = None, p_created_at = t0, p_updated_at = t0\<rparr>"


definition mv :: "int \<Rightarrow> int \<Rightarrow> string \<Rightarrow> int \<Rightarrow> movement" where
  "mv i pid ty q =
     \<lparr>m_id = i, m_product_id = pid, m_movement_type = ty, m_quantity = q,
      m_reference_id = Some ''Initial stock'', m_notes = Some ''Initial inventory'',
      m_user_id = Some 1, m_created_at = t0\<rparr>"

definition bolt_form :: "int \<Rightarrow> product_form" where
  "bolt_form q =
     \<lparr>f_name = '' Bolt'', f_sku = ''B-1'', f_category = [], f_description = [],
      f_unit_price = 1, f_quantity = q, f_min_stock_level = 0, f_supplier = []\<rparr>"

definition shop :: "product list \<Rightarrow> movement list \<Rightarrow> world" where
  "shop ps ms =
     \<lparr>products = ps, stock_movements = ms, categories = [], suppliers = [],
      products_seq = 2, stock_movements_seq = 1, current_user = Some admin, now = t0,
      faults = []\<rparr>"

section \<open>Properties\<close>

subsection \<open>SKU format\<close>

lemma isalnum_upper_char: "isalnum c \<Longrightarrow> isalnum (upper_char c)"
  by (auto simp: isalnum_def upper_char_def ascii_lowercase_def ascii_uppercase_def digits_def)

lemma upper_char_not_lower: "isalnum c \<Longrightarrow> upper_char c \<notin> set ascii_lowercase"
  by (auto simp: isalnum_def upper_char_def ascii_lowercase_def ascii_uppercase_def digits_def)

lemma subseq_product_prefix: "subseq (product_prefix product_name) (upper product_name)"
  unfolding product_prefix_def upper_def
  by (intro subseq_map)
     (rule subseq_order.order_trans [OF subseq_filter_left prefix_imp_subseq [OF take_is_prefix]])

lemma length_product_prefix: "length (product_prefix product_name) \<le> 4"
proof -
  have "length (filter isalnum (take 4 product_name)) \<le> length (take 4 product_name)"
    by (rule length_filter_le)
  then show ?thesis by (simp add: product_prefix_def upper_def)
qed

lemma length_two_digits: "length (two_digits n) = 2"
  by (simp add: two_digits_def)

lemma two_digits_digits: "set (two_digits n) \<subseteq> set digits"
proof -
  have "length digits = 10" by (simp add: digits_def)
  then have "k < 10 \<Longrightarrow> digits ! k \<in> set digits" for k by (metis nth_mem)
  then show ?thesis by (simp add: two_digits_def)
qed

text \<open>
  C4. For an ASCII product name and category name, the generated SKU is
  \<^verbatim>\<open>PREFIX-BODY-SUFFIX\<close>. The prefix is \<^verbatim>\<open>GEN\<close> when the category is empty and the first
  three characters of the category in upper case otherwise. The body is what remains
  of the first four characters of the product name when the characters that are not
  alphanumeric are dropped, in upper case: at most four characters, each alphanumeric
  and none lower case, in the order they have in the name. The suffix is the eight
  digits of month, day, hour and minute.
\<close>

theorem generate_sku_format:
  assumes "\<forall>c \<in> set product_name. is_ascii c" and "\<forall>c \<in> set category. is_ascii c"
  shows "generate_sku t product_name category
           = category_prefix category @ ''-'' @ product_prefix product_name @ ''-''
               @ strftime_mdHM t
         \<and> category_prefix category
             = (if category = [] then ''GEN'' else map upper_char (take 3 category))
         \<and> product_prefix product_name
             = map upper_char (filter isalnum (take 4 product_name))
         \<and> length (product_prefix product_name) \<le> 4
         \<and> (\<forall>c \<in> set (product_prefix product_name). isalnum c \<and> c \<notin> set ascii_lowercase)
         \<and> subseq (product_prefix product_name) (map upper_char product_name)
         \<and> length (strftime_mdHM t) = 8 \<and> set (strftime_mdHM t) \<subseteq> set digits"
proof -
  have a: "\<forall>c \<in> set (product_prefix product_name). isalnum c \<and> c \<notin> set ascii_lowercase"
    by (auto simp: product_prefix_def upper_def isalnum_upper_char upper_char_not_lower)
  have b: "length (strftime_mdHM t) = 8 \<and> set (strftime_mdHM t) \<subseteq> set digits"
    using two_digits_digits by (simp add: strftime_mdHM_def length_two_digits)
  show ?thesis
    using a b subseq_product_prefix [of product_name] length_product_prefix [of product_name]
    by (simp add: generate_sku_def category_prefix_def product_prefix_def upper_def)
qed

theorem generate_sku_format_witness:
  "list_all is_ascii ''a-b c1'' \<and> list_all is_ascii ''Electronics''
   \<and> generate_sku \<lparr>dt_year = 2024, dt_month = 3, dt_day = 7, dt_hour = 14, dt_minute = 5,
                    dt_second = 0\<rparr> ''a-b c1'' ''Electronics'' = ''ELE-AB-03071405''
   \<and> product_prefix ''a-b c1'' = ''AB'' \<and> category_prefix ''Electronics'' = ''ELE''"
proof -
  let ?t = "\<lparr>dt_year = 2024, dt_month = 3, dt_day = 7, dt_hour = 14, dt_minute = 5,
             dt_second = 0\<rparr>"
  have h1: "\<forall>c \<in> set ''a-b c1''. is_ascii c" by (simp add: is_ascii_def)
  have h2: "\<forall>c \<in> set ''Electronics''. is_ascii c" by (simp add: is_ascii_def)
  have pp: "product_prefix ''a-b c1'' = ''AB''"
    by (simp add: product_prefix_def upper_def upper_char_def isalnum_def ascii_lowercase_def
          ascii_uppercase_def digits_def)
  have cp: "category_prefix ''Electronics'' = ''ELE''"
    by (simp add: category_prefix_def upper_def upper_char_def ascii_lowercase_def
          ascii_uppercase_def)
  have ts: "strftime_mdHM ?t = ''03071405''"
    by (simp add: strftime_mdHM_def two_digits_def digits_def)
  from generate_sku_format [OF h1 h2, of ?t]
  have "generate_sku ?t ''a-b c1'' ''Electronics''
          = category_prefix ''Electronics'' @ ''-'' @ product_prefix ''a-b c1'' @ ''-''
              @ strftime_mdHM ?t"
    by (rule conjunct1)
  then have "generate_sku ?t ''a-b c1'' ''Electronics'' = ''ELE-AB-03071405''"
    by (simp only: pp cp ts append.simps)
  with h1 h2 pp cp show ?thesis by (simp only: list_all_iff)
qed

subsection \<open>Statements that do not fail\<close>

lemma next_fault_nil: "faults w = [] \<Longrightarrow> next_fault w = (False, w)"
  by (simp add: next_fault_def)

lemma next_fault_tables:
  "next_fault w = (f, w1) \<Longrightarrow>
     products w1 = products w \<and> stock_movements w1 = stock_movements w \<and>
     categories w1 = categories w \<and> suppliers w1 = suppliers w \<and>
     products_seq w1 = products_seq w \<and> stock_movements_seq w1 = stock_movements_seq w \<and>
     current_user w1 = current_user w \<and> now w1 = now w"
  by (auto simp: next_fault_def split: list.splits)

lemma execute_query_nil: "faults w = [] \<Longrightarrow> execute_query q w = (Inr (q w), w)"
  by (simp add: execute_query_def next_fault_nil)

lemma execute_update_nil:
  "faults w = [] \<Longrightarrow>
     execute_update q w = (case q w of Inl e \<Rightarrow> (Inl e, w) | Inr (n, w2) \<Rightarrow> (Inr n, w2))"
  by (simp add: execute_update_def next_fault_nil)

lemma execute_insert_nil:
  "faults w = [] \<Longrightarrow>
     execute_insert q w = (case q w of Inl e \<Rightarrow> (Inl e, w) | Inr (n, w2) \<Rightarrow> (Inr n, w2))"
  by (simp add: execute_insert_def next_fault_nil)

lemma first_row_find: "(case filter P xs of [] \<Rightarrow> None | y # _ \<Rightarrow> Some y) = find P xs"
  by (induction xs) auto

lemma get_product_by_id_nil:
  "faults w = [] \<Longrightarrow>
     get_product_by_id product_id w = (find (\<lambda>p. p_id p = product_id) (products w), w)"
  by (simp add: get_product_by_id_def execute_query_nil sql_select_product_by_id_def
        first_row_find)

subsection \<open>Adjusting to the current quantity\<close>

text \<open>
  C6. For an existing product, a user who may edit stock and a store whose statements
  do not fail, \<^verbatim>\<open>adjust_stock\<close> with the current quantity returns \<^verbatim>\<open>True\<close> and leaves
  the whole store as it was: no movement row is added and the product row, its
  \<^verbatim>\<open>updated_at\<close> included, is unchanged; calling it again gives the same.
\<close>

theorem adjust_stock_same_quantity:
  assumes "has_permission w ''edit_stock''" and "faults w = []"
    and "find (\<lambda>p. p_id p = product_id) (products w) = Some p"
  shows "adjust_stock product_id (p_quantity p) reason w = (True, w)
         \<and> adjust_stock product_id (p_quantity p) reason
             (snd (adjust_stock product_id (p_quantity p) reason w)) = (True, w)"
  using assms by (simp add: adjust_stock_def get_product_by_id_nil)

theorem adjust_stock_same_quantity_witness:
  "has_permission (shop [widget 10] [mv 1 1 ''in'' 10]) ''edit_stock''
   \<and> faults (shop [widget 10] [mv 1 1 ''in'' 10]) = []
   \<and> find (\<lambda>p. p_id p = 1) (products (shop [widget 10] [mv 1 1 ''in'' 10]))
       = Some (widget 10)
   \<and> adjust_stock 1 10 None (shop [widget 10] [mv 1 1 ''in'' 10])
       = (True, shop [widget 10] [mv 1 1 ''in'' 10])"
proof -
  let ?w = "shop [widget 10] [mv 1 1 ''in'' 10]"
  have h1: "has_permission ?w ''edit_stock''"
    by (simp add: has_permission_def shop_def admin_def)
  have h2: "faults ?w = []" by (simp add: shop_def)
  have h3: "find (\<lambda>p. p_id p = 1) (products ?w) = Some (widget 10)"
    by (simp add: shop_def widget_def)
  have q: "p_quantity (widget 10) = 10" by (simp add: widget_def)
  from adjust_stock_same_quantity [OF h1 h2 h3, of None] h1 h2 h3 show ?thesis
    by (simp only: q)
qed

subsection \<open>Deleting a product\<close>

lemma delete_product_blocked:
  assumes ex: "\<exists>m \<in> set (stock_movements w). m_product_id m = product_id"
  shows "\<exists>w1. delete_product product_id w = (False, w1) \<and> products w1 = products w
              \<and> stock_movements w1 = stock_movements w"
proof (cases "has_permission w ''delete_stock''")
  case False
  then show ?thesis by (simp add: delete_product_def)
next
  case True
  obtain f w1 where nf: "next_fault w = (f, w1)" by (cases "next_fault w")
  note tabs = next_fault_tables [OF nf]
  from ex tabs have "filter (\<lambda>m. m_product_id m = product_id) (stock_movements w1) \<noteq> []"
    by (auto simp: filter_empty_conv)
  then have pos: "0 < length (filter (\<lambda>m. m_product_id m = product_id) (stock_movements w1))"
    by simp
  show ?thesis
    using True nf tabs pos
    by (cases f) (simp_all add: delete_product_def execute_query_def sql_count_movements_def)
qed

lemma delete_product_nil:
  assumes "\<forall>m \<in> set (stock_movements w). m_product_id m \<noteq> product_id"
    and "\<exists>p \<in> set (products w). p_id p = product_id"
    and "has_permission w ''delete_stock''" and "faults w = []"
  shows "delete_product product_id w
           = (True, w\<lparr>products := filter (\<lambda>p. p_id p \<noteq> product_id) (products w)\<rparr>)"
proof -
  from assms(1) have "filter (\<lambda>m. m_product_id m = product_id) (stock_movements w) = []"
    by (auto simp: filter_empty_conv)
  moreover from assms(2) have "filter (\<lambda>p. p_id p = product_id) (products w) \<noteq> []"
    by (auto simp: filter_empty_conv)
  ultimately show ?thesis
    using assms(3,4)
    by (simp add: delete_product_def execute_query_nil execute_update_nil
          sql_count_movements_def sql_delete_product_def)
qed

text \<open>
  C7. When the product has a movement row, \<^verbatim>\<open>delete_product\<close> returns \<^verbatim>\<open>False\<close> (a value,
  not an exception) and both tables are as before, whoever calls and whether or not a
  statement fails. When it has none, the product exists, the user may delete stock and
  no statement fails, \<^verbatim>\<open>delete_product\<close> returns \<^verbatim>\<open>True\<close> and the product row is gone;
  nothing else changes.
\<close>

theorem delete_product_guard:
  "((\<exists>m \<in> set (stock_movements w). m_product_id m = product_id) \<longrightarrow>
      fst (delete_product product_id w) = False
      \<and> products (snd (delete_product product_id w)) = products w
      \<and> stock_movements (snd (delete_product product_id w)) = stock_movements w)
   \<and> ((\<forall>m \<in> set (stock_movements w). m_product_id m \<noteq> product_id)
        \<and> (\<exists>p \<in> set (products w). p_id p = product_id)
        \<and> has_permission w ''delete_stock'' \<and> faults w = [] \<longrightarrow>
      delete_product product_id w
        = (True, w\<lparr>products := filter (\<lambda>p. p_id p \<noteq> product_id) (products w)\<rparr>))"
proof (rule conjI; rule impI)
  assume "\<exists>m \<in> set (stock_movements w). m_product_id m = product_id"
  from delete_product_blocked [OF this]
  show "fst (delete_product product_id w) = False
      \<and> products (snd (delete_product product_id w)) = products w
      \<and> stock_movements (snd (delete_product product_id w)) = stock_movements w"
    by auto
next
  assume "(\<forall>m \<in> set (stock_movements w). m_product_id m \<noteq> product_id)
        \<and> (\<exists>p \<in> set (products w). p_id p = product_id)
        \<and> has_permission w ''delete_stock'' \<and> faults w = []"
  then show "delete_product product_id w
        = (True, w\<lparr>products := filter (\<lambda>p. p_id p \<noteq> product_id) (products w)\<rparr>)"
    using delete_product_nil [of w product_id] by blast
qed

theorem delete_product_guard_witness:
  "fst (delete_product 1 (shop [widget 10, gadget 0] [mv 1 1 ''in'' 10])) = False
   \<and> products (snd (delete_product 1 (shop [widget 10, gadget 0] [mv 1 1 ''in'' 10])))
       = [widget 10, gadget 0]
   \<and> delete_product 2 (shop [widget 10, gadget 0] [mv 1 1 ''in'' 10])
       = (True, shop [widget 10] [mv 1 1 ''in'' 10])"
proof -
  let ?w = "shop [widget 10, gadget 0] [mv 1 1 ''in'' 10]"
  have a: "\<exists>m \<in> set (stock_movements ?w). m_product_id m = 1" by (simp add: shop_def mv_def)
  have b: "(\<forall>m \<in> set (stock_movements ?w). m_product_id m \<noteq> 2)
        \<and> (\<exists>p \<in> set (products ?w). p_id p = 2)
        \<and> has_permission ?w ''delete_stock'' \<and> faults ?w = []"
    by (simp add: shop_def mv_def widget_def gadget_def has_permission_def admin_def)
  from delete_product_guard [of ?w 1] a
  have r1: "fst (delete_product 1 ?w) = False
            \<and> products (snd (delete_product 1 ?w)) = products ?w"
    by blast
  from delete_product_guard [of ?w 2] b
  have r2: "delete_product 2 ?w
              = (True, ?w\<lparr>products := filter (\<lambda>p. p_id p \<noteq> 2) (products ?w)\<rparr>)"
    by blast
  from r1 r2 show ?thesis by (simp add: shop_def widget_def gadget_def)
qed

lemmas sample_defs = shop_def widget_def gadget_def mv_def admin_def

subsection \<open>Updating a product\<close>

lemma assign_frame:
  "p_id (assign kw p) = p_id p \<and> p_quantity (assign kw p) = p_quantity p
   \<and> p_created_at (assign kw p) = p_created_at p \<and> p_updated_at (assign kw p) = p_updated_at p"
  by (cases kw) simp_all

lemma fold_assign_frame:
  "p_id (fold assign kws p) = p_id p \<and> p_quantity (fold assign kws p) = p_quantity p
   \<and> p_created_at (fold assign kws p) = p_created_at p
   \<and> p_updated_at (fold assign kws p) = p_updated_at p"
  by (induction kws arbitrary: p) (simp_all add: assign_frame)


lemma update_product_cases:
  assumes "update_product product_id kwargs w = (ok, w')"
  shows "stock_movements w' = stock_movements w \<and> now w' = now w \<and>
         ((\<not> ok \<and> products w' = products w) \<or>
          (ok \<and> (\<exists>p \<in> set (products w). p_id p = product_id) \<and>
           products w' =
             map (\<lambda>p. if p_id p = product_id
                       then (fold assign (filter (\<lambda>kw. field_of kw \<in> set valid_fields) kwargs) p)
                              \<lparr>p_updated_at := now w\<rparr>
                       else p) (products w)))"
proof (cases "has_permission w ''edit_stock'' \<and> filter (\<lambda>kw. field_of kw \<in> set valid_fields) kwargs \<noteq> []")
  case False
  with assms show ?thesis by (auto simp: update_product_def Let_def split: if_splits)
next
  case True
  let ?ups = "filter (\<lambda>kw. field_of kw \<in> set valid_fields) kwargs"
  obtain f w1 where nf: "next_fault w = (f, w1)" by (cases "next_fault w")
  note tabs = next_fault_tables [OF nf]
  show ?thesis
  proof (cases f)
    case True
    with assms \<open>has_permission w ''edit_stock'' \<and> ?ups \<noteq> []\<close> nf tabs show ?thesis
      by (auto simp: update_product_def execute_update_def Let_def)
  next
    case False
    show ?thesis
    proof (cases "sql_update_product ?ups product_id w1")
      case (Inl e)
      with assms \<open>has_permission w ''edit_stock'' \<and> ?ups \<noteq> []\<close> nf tabs False show ?thesis
        by (auto simp: update_product_def execute_update_def Let_def)
    next
      case (Inr r)
      obtain n w2 where r: "r = (n, w2)" by (cases r)
      from Inr r have n: "n = length (filter (\<lambda>p. p_id p = product_id) (products w))"
        and w2: "w2 = w1\<lparr>products := map (\<lambda>p. if p_id p = product_id
                       then (fold assign ?ups p)\<lparr>p_updated_at := now w\<rparr>
                       else p) (products w)\<rparr>"
        using tabs by (auto simp: sql_update_product_def Let_def split: if_splits)
      from assms \<open>has_permission w ''edit_stock'' \<and> ?ups \<noteq> []\<close> nf False Inr r
      have res: "ok = (n > 0)" "w' = w2"
        by (auto simp: update_product_def execute_update_def Let_def)
      show ?thesis
      proof (cases "n > 0")
        case True
        then have "filter (\<lambda>p. p_id p = product_id) (products w) \<noteq> []" using n by auto
        then have "\<exists>p \<in> set (products w). p_id p = product_id"
          by (auto simp: filter_empty_conv)
        with True res w2 tabs show ?thesis by simp
      next
        case False
        then have "filter (\<lambda>p. p_id p = product_id) (products w) = []" using n by auto
        then have "\<forall>p \<in> set (products w). p_id p \<noteq> product_id"
          by (auto simp: filter_empty_conv)
        then have "map (\<lambda>p. if p_id p = product_id
                       then (fold assign ?ups p)\<lparr>p_updated_at := now w\<rparr>
                       else p) (products w) = products w"
          by (intro map_idI) auto
        with False res w2 tabs show ?thesis by simp
      qed
    qed
  qed
qed

text \<open>
  C8. Whatever keywords \<^verbatim>\<open>update_product\<close> is called with (\<^verbatim>\<open>quantity\<close> among them),
  whoever calls it and whether or not a statement fails: the movements are untouched,
  every product row keeps its \<^verbatim>\<open>id\<close>, \<^verbatim>\<open>quantity\<close> and \<^verbatim>\<open>created_at\<close>, and a row with
  another id is unchanged altogether; so only \<^verbatim>\<open>name\<close>, \<^verbatim>\<open>category_id\<close>, \<^verbatim>\<open>sku\<close>,
  \<^verbatim>\<open>description\<close>, \<^verbatim>\<open>unit_price\<close>, \<^verbatim>\<open>min_stock_level\<close>, \<^verbatim>\<open>supplier_id\<close> and
  \<^verbatim>\<open>updated_at\<close> of the addressed product can differ. When the call returns \<^verbatim>\<open>True\<close> the
  addressed product exists and its \<^verbatim>\<open>updated_at\<close> is the current time; when it returns
  \<^verbatim>\<open>False\<close> no product row has changed.
\<close>

theorem update_product_frame:
  assumes "update_product product_id kwargs w = (ok, w')"
  shows "stock_movements w' = stock_movements w
         \<and> map p_id (products w') = map p_id (products w)
         \<and> map p_quantity (products w') = map p_quantity (products w)
         \<and> map p_created_at (products w') = map p_created_at (products w)
         \<and> (\<forall>i < length (products w).
               p_id (products w ! i) \<noteq> product_id \<longrightarrow> products w' ! i = products w ! i)
         \<and> (ok \<longrightarrow> (\<exists>p \<in> set (products w'). p_id p = product_id)
                  \<and> (\<forall>p \<in> set (products w'). p_id p = product_id \<longrightarrow> p_updated_at p = now w))
         \<and> (\<not> ok \<longrightarrow> products w' = products w)"
proof -
  from update_product_cases [OF assms]
  have mv: "stock_movements w' = stock_movements w"
    and cases: "(\<not> ok \<and> products w' = products w) \<or>
          (ok \<and> (\<exists>p \<in> set (products w). p_id p = product_id) \<and>
           products w' =
             map (\<lambda>p. if p_id p = product_id
                       then (fold assign (filter (\<lambda>kw. field_of kw \<in> set valid_fields) kwargs) p)
                              \<lparr>p_updated_at := now w\<rparr>
                       else p) (products w))"
    by auto
  from cases show ?thesis
  proof
    assume "\<not> ok \<and> products w' = products w"
    with mv show ?thesis by simp
  next
    assume a: "ok \<and> (\<exists>p \<in> set (products w). p_id p = product_id) \<and>
           products w' =
             map (\<lambda>p. if p_id p = product_id
                       then (fold assign (filter (\<lambda>kw. field_of kw \<in> set valid_fields) kwargs) p)
                              \<lparr>p_updated_at := now w\<rparr>
                       else p) (products w)"
    then have 1: "map p_id (products w') = map p_id (products w)"
      and 2: "map p_quantity (products w') = map p_quantity (products w)"
      and 3: "map p_created_at (products w') = map p_created_at (products w)"
      by (simp_all add: fold_assign_frame)
    from a have 4: "\<forall>i < length (products w).
               p_id (products w ! i) \<noteq> product_id \<longrightarrow> products w' ! i = products w ! i"
      by simp
    from 1 have "set (map p_id (products w')) = set (map p_id (products w))" by simp
    then have "p_id ` set (products w') = p_id ` set (products w)" by simp
    moreover from a have "product_id \<in> p_id ` set (products w)" by auto
    ultimately have "product_id \<in> p_id ` set (products w')" by simp
    then have 5: "\<exists>p \<in> set (products w'). p_id p = product_id" by auto
    from a have 6: "\<forall>p \<in> set (products w'). p_id p = product_id \<longrightarrow> p_updated_at p = now w"
      by (auto simp: fold_assign_frame)
    from a mv 1 2 3 4 5 6 show ?thesis by blast
  qed
qed








theorem update_product_frame_witness:
  "update_product 1 [Kw_name ''Gadget'', Kw_other ''quantity'' (PInt 99)]
      ((shop [widget 10, gadget 0] [mv 1 1 ''in'' 10])\<lparr>now := t1\<rparr>)
     = (True, (shop [(widget 10)\<lparr>p_name := ''Gadget'', p_updated_at := t1\<rparr>, gadget 0]
                 [mv 1 1 ''in'' 10])\<lparr>now := t1\<rparr>)
   \<and> map p_quantity (products (snd (update_product 1
         [Kw_name ''Gadget'', Kw_other ''quantity'' (PInt 99)]
         ((shop [widget 10, gadget 0] [mv 1 1 ''in'' 10])\<lparr>now := t1\<rparr>)))) = [10, 0]"
proof -
  let ?w = "(shop [widget 10, gadget 0] [mv 1 1 ''in'' 10])\<lparr>now := t1\<rparr>"
  let ?w' = "(shop [(widget 10)\<lparr>p_name := ''Gadget'', p_updated_at := t1\<rparr>, gadget 0]
                 [mv 1 1 ''in'' 10])\<lparr>now := t1\<rparr>"
  let ?kw = "[Kw_name ''Gadget'', Kw_other ''quantity'' (PInt 99)]"
  have eq: "update_product 1 ?kw ?w = (True, ?w')"
    by (simp add: update_product_def has_permission_def valid_fields_def execute_update_def
          next_fault_def sql_update_product_def sample_defs)
  from update_product_frame [OF eq]
  have "map p_quantity (products ?w') = map p_quantity (products ?w)" by blast
  then have "map p_quantity (products ?w') = [10, 0]" by (simp add: sample_defs)
  with eq show ?thesis by simp
qed


subsection \<open>Creating a product with a SKU that exists\<close>

lemma execute_query_tables:
  "execute_query q w = (r, w1) \<Longrightarrow>
     products w1 = products w \<and> stock_movements w1 = stock_movements w"
  by (auto simp: execute_query_def split: prod.splits bool.splits dest: next_fault_tables)

lemma resolve_sku_tables:
  "resolve_sku name category_id sku w = (r, w1) \<Longrightarrow>
     products w1 = products w \<and> stock_movements w1 = stock_movements w"
  by (auto simp: resolve_sku_def split: if_splits prod.splits sum.splits
        dest: execute_query_tables)

lemma get_product_by_sku_tables:
  "get_product_by_sku sku w = (r, w1) \<Longrightarrow>
     products w1 = products w \<and> stock_movements w1 = stock_movements w"
  by (auto simp: get_product_by_sku_def split: prod.splits sum.splits
        dest: execute_query_tables)

lemma insert_product_duplicate_fails:
  assumes dup: "\<exists>p \<in> set (products w). p_sku p = Some k"
    and ins: "execute_insert (sql_insert_product name category_id k description unit_price
                  quantity min_stock_level supplier_id) w = (r, w1)"
  shows "(\<exists>e. r = Inl e) \<and> products w1 = products w \<and> stock_movements w1 = stock_movements w"
proof -
  obtain f w_before where nf: "next_fault w = (f, w_before)" by (cases "next_fault w")
  note tabs = next_fault_tables [OF nf]
  from dup tabs have "sql_insert_product name category_id k description unit_price
                  quantity min_stock_level supplier_id w_before = Inl IntegrityError"
    by (simp add: sql_insert_product_def)
  with ins nf tabs show ?thesis by (cases f) (auto simp: execute_insert_def)
qed

lemma add_product_existing_sku:
  assumes res: "fst (resolve_sku name category_id sku w) = Inr k"
    and dup: "\<exists>p \<in> set (products w). p_sku p = Some k"
  shows "fst (add_product name category_id description unit_price quantity min_stock_level
                supplier_id sku w) = None
         \<and> products (snd (add_product name category_id description unit_price quantity
                             min_stock_level supplier_id sku w)) = products w
         \<and> stock_movements (snd (add_product name category_id description unit_price quantity
                                    min_stock_level supplier_id sku w)) = stock_movements w"
proof (cases "has_permission w ''add_stock''")
  case False
  then show ?thesis by (simp add: add_product_def)
next
  case True
  obtain w1 where r1: "resolve_sku name category_id sku w = (Inr k, w1)"
    using res by (cases "resolve_sku name category_id sku w") auto
  note t1 = resolve_sku_tables [OF r1]
  obtain existing w2 where r2: "get_product_by_sku k w1 = (existing, w2)"
    by (cases "get_product_by_sku k w1")
  note t2 = get_product_by_sku_tables [OF r2]
  show ?thesis
  proof (cases existing)
    case (Some p)
    with True r1 r2 t1 t2 show ?thesis by (simp add: add_product_def)
  next
    case None
    obtain r w3 where r3: "execute_insert (sql_insert_product name category_id k description
                  unit_price quantity min_stock_level supplier_id) w2 = (r, w3)"
      by (cases "execute_insert (sql_insert_product name category_id k description
                  unit_price quantity min_stock_level supplier_id) w2")
    from dup t1 t2 have "\<exists>p \<in> set (products w2). p_sku p = Some k" by simp
    from insert_product_duplicate_fails [OF this r3]
    obtain e where "r = Inl e" "products w3 = products w2"
      "stock_movements w3 = stock_movements w2" by blast
    with True r1 r2 r3 None t1 t2 show ?thesis by (simp add: add_product_def)
  qed
qed

lemma resolve_sku_explicit: "k \<noteq> [] \<Longrightarrow> resolve_sku name category_id (Some k) w = (Inr k, w)"
  by (simp add: resolve_sku_def)


lemma execute_insert_movement_products:
  "execute_insert (sql_insert_movement product_id movement_type quantity reference_id notes
      user_id) w = (r, w1) \<Longrightarrow> products w1 = products w"
proof -
  assume a: "execute_insert (sql_insert_movement product_id movement_type quantity reference_id
      notes user_id) w = (r, w1)"
  obtain f w_before where nf: "next_fault w = (f, w_before)" by (cases "next_fault w")
  note tabs = next_fault_tables [OF nf]
  from a nf tabs show ?thesis
    by (cases f) (auto simp: execute_insert_def sql_insert_movement_def Let_def)
qed

lemma record_stock_movement_products:
  "products (snd (record_stock_movement product_id movement_type quantity reference_id notes w))
     = products w"
proof -
  let ?u = "case current_user w of Some u \<Rightarrow> Some (u_id u) | None \<Rightarrow> None"
  obtain r w1 where e: "execute_insert (sql_insert_movement product_id movement_type quantity
      reference_id notes ?u) w = (r, w1)"
    by (cases "execute_insert (sql_insert_movement product_id movement_type quantity
      reference_id notes ?u) w")
  from execute_insert_movement_products [OF e] e show ?thesis
    by (cases r) (simp_all add: record_stock_movement_def)
qed

lemma insert_product_row:
  assumes "execute_insert (sql_insert_product name category_id k description unit_price
                  quantity min_stock_level supplier_id) w = (Inr product_id, w1)"
  shows "\<exists>p \<in> set (products w1). p_sku p = Some k \<and> p_id p = product_id"
proof -
  obtain f w_before where nf: "next_fault w = (f, w_before)" by (cases "next_fault w")
  from assms nf show ?thesis
    by (cases f)
       (auto simp: execute_insert_def sql_insert_product_def Let_def split: if_splits)
qed

lemma add_product_row:
  assumes ok: "add_product name category_id description unit_price quantity min_stock_level
                 supplier_id sku w = (Some product_id, w')"
  shows "\<exists>k. fst (resolve_sku name category_id sku w) = Inr k
             \<and> (\<exists>p \<in> set (products w'). p_sku p = Some k \<and> p_id p = product_id)"
proof -
  from ok have perm: "has_permission w ''add_stock''"
    by (auto simp: add_product_def split: if_splits)
  obtain r w1 where r1: "resolve_sku name category_id sku w = (r, w1)"
    by (cases "resolve_sku name category_id sku w")
  with ok perm obtain k where k: "r = Inr k" by (cases r) (auto simp: add_product_def)
  obtain existing w2 where r2: "get_product_by_sku k w1 = (existing, w2)"
    by (cases "get_product_by_sku k w1")
  with ok perm r1 k have none: "existing = None"
    by (cases existing) (auto simp: add_product_def)
  obtain ri w3 where r3: "execute_insert (sql_insert_product name category_id k description
                  unit_price quantity min_stock_level supplier_id) w2 = (ri, w3)"
    by (cases "execute_insert (sql_insert_product name category_id k description
                  unit_price quantity min_stock_level supplier_id) w2")
  with ok perm r1 k r2 none have ri: "ri = Inr product_id"
    by (cases ri) (auto simp: add_product_def split: if_splits)
  from insert_product_row [OF r3 [unfolded ri]]
  have row: "\<exists>p \<in> set (products w3). p_sku p = Some k \<and> p_id p = product_id" .
  from ok perm r1 k r2 none r3 ri have "products w' = products w3"
    by (auto simp: add_product_def record_stock_movement_products split: if_splits)
  with row r1 k show ?thesis by auto
qed

text \<open>
  C5. When the SKU that \<^verbatim>\<open>add_product\<close> resolves (the explicit \<^verbatim>\<open>sku\<close>, or the generated
  one) is the SKU of a product in the store, the call fails: it returns \<^verbatim>\<open>None\<close>, and the
  product and movement tables are what they were, for every user and whether or not a
  statement fails. In particular, right after a successful \<^verbatim>\<open>add_product\<close> that resolved
  the same SKU, the second creation fails, no second row is written and the first
  product's row is still there. The failure is the return value \<^verbatim>\<open>None\<close>: the source has
  no error type, and \<^verbatim>\<open>None\<close> is what it returns for every failure.
\<close>

theorem add_product_duplicate_sku:
  "(fst (resolve_sku name category_id sku w) = Inr k
      \<and> (\<exists>p \<in> set (products w). p_sku p = Some k) \<longrightarrow>
    fst (add_product name category_id description unit_price quantity min_stock_level
           supplier_id sku w) = None
    \<and> products (snd (add_product name category_id description unit_price quantity
                        min_stock_level supplier_id sku w)) = products w
    \<and> stock_movements (snd (add_product name category_id description unit_price quantity
                               min_stock_level supplier_id sku w)) = stock_movements w)
   \<and> (add_product first_name first_category_id first_description first_unit_price first_quantity first_min_stock_level
         first_supplier_id first_sku w_before = (Some first_product_id, w)
       \<and> fst (resolve_sku first_name first_category_id first_sku w_before) = Inr k
       \<and> fst (resolve_sku name category_id sku w) = Inr k \<longrightarrow>
    fst (add_product name category_id description unit_price quantity min_stock_level
           supplier_id sku w) = None
    \<and> products (snd (add_product name category_id description unit_price quantity
                        min_stock_level supplier_id sku w)) = products w
    \<and> stock_movements (snd (add_product name category_id description unit_price quantity
                               min_stock_level supplier_id sku w)) = stock_movements w
    \<and> (\<exists>p \<in> set (products w). p_id p = first_product_id \<and> p_sku p = Some k))"
proof (rule conjI; rule impI)
  assume "fst (resolve_sku name category_id sku w) = Inr k
      \<and> (\<exists>p \<in> set (products w). p_sku p = Some k)"
  then show "fst (add_product name category_id description unit_price quantity min_stock_level
           supplier_id sku w) = None
    \<and> products (snd (add_product name category_id description unit_price quantity
                        min_stock_level supplier_id sku w)) = products w
    \<and> stock_movements (snd (add_product name category_id description unit_price quantity
                               min_stock_level supplier_id sku w)) = stock_movements w"
    using add_product_existing_sku by blast
next
  assume a: "add_product first_name first_category_id first_description first_unit_price first_quantity first_min_stock_level
         first_supplier_id first_sku w_before = (Some first_product_id, w)
       \<and> fst (resolve_sku first_name first_category_id first_sku w_before) = Inr k
       \<and> fst (resolve_sku name category_id sku w) = Inr k"
  then have first: "add_product first_name first_category_id first_description first_unit_price first_quantity
      first_min_stock_level first_supplier_id first_sku w_before = (Some first_product_id, w)"
    and k0: "fst (resolve_sku first_name first_category_id first_sku w_before) = Inr k"
    and k: "fst (resolve_sku name category_id sku w) = Inr k" by auto
  from add_product_row [OF first] k0
  have row: "\<exists>p \<in> set (products w). p_id p = first_product_id \<and> p_sku p = Some k" by auto
  then have dup: "\<exists>p \<in> set (products w). p_sku p = Some k" by auto
  from add_product_existing_sku [OF k dup] row
  show "fst (add_product name category_id description unit_price quantity min_stock_level
           supplier_id sku w) = None
    \<and> products (snd (add_product name category_id description unit_price quantity
                        min_stock_level supplier_id sku w)) = products w
    \<and> stock_movements (snd (add_product name category_id description unit_price quantity
                               min_stock_level supplier_id sku w)) = stock_movements w
    \<and> (\<exists>p \<in> set (products w). p_id p = first_product_id \<and> p_sku p = Some k)"
    by blast
qed

lemma generate_sku_widget: "generate_sku t0 ''Widget'' [] = ''GEN-WIDG-03071405''"
  by (simp add: generate_sku_def category_prefix_def product_prefix_def upper_def
        upper_char_def isalnum_def ascii_lowercase_def ascii_uppercase_def digits_def
        strftime_mdHM_def two_digits_def t0_def)

theorem add_product_duplicate_sku_witness:
  "add_product ''Widget'' None None 10 10 5 None None (shop [] [])
     = (Some 3, (shop [(widget 10)\<lparr>p_id := 3\<rparr>] [mv 2 3 ''in'' 10])
                  \<lparr>products_seq := 3, stock_movements_seq := 2\<rparr>)
   \<and> fst (add_product ''Widget'' None None 10 7 5 None None
        ((shop [(widget 10)\<lparr>p_id := 3\<rparr>] [mv 2 3 ''in'' 10])
                  \<lparr>products_seq := 3, stock_movements_seq := 2\<rparr>)) = None
   \<and> products (snd (add_product ''Widget'' None None 10 7 5 None None
        ((shop [(widget 10)\<lparr>p_id := 3\<rparr>] [mv 2 3 ''in'' 10])
                  \<lparr>products_seq := 3, stock_movements_seq := 2\<rparr>))) = [(widget 10)\<lparr>p_id := 3\<rparr>]
   \<and> fst (add_product ''Copy'' None None 1 7 0 None (Some ''GEN-WIDG-03071405'')
        (shop [widget 10] [mv 1 1 ''in'' 10])) = None
   \<and> products (snd (add_product ''Copy'' None None 1 7 0 None (Some ''GEN-WIDG-03071405'')
        (shop [widget 10] [mv 1 1 ''in'' 10]))) = [widget 10]"
proof -
  let ?e = "shop [] []"
  let ?w = "(shop [(widget 10)\<lparr>p_id := 3\<rparr>] [mv 2 3 ''in'' 10])
                  \<lparr>products_seq := 3, stock_movements_seq := 2\<rparr>"
  let ?v = "shop [widget 10] [mv 1 1 ''in'' 10]"
  have r0: "resolve_sku ''Widget'' None None ?e = (Inr ''GEN-WIDG-03071405'', ?e)"
    by (simp add: resolve_sku_def generate_sku_widget shop_def)
  have r: "resolve_sku ''Widget'' None None ?w = (Inr ''GEN-WIDG-03071405'', ?w)"
    by (simp add: resolve_sku_def generate_sku_widget shop_def)
  have first: "add_product ''Widget'' None None 10 10 5 None None ?e = (Some 3, ?w)"
    by (simp add: add_product_def resolve_sku_def generate_sku_widget has_permission_def
          get_product_by_sku_def execute_query_def execute_insert_def next_fault_def
          sql_select_product_by_sku_def sql_insert_product_def sql_insert_movement_def
          record_stock_movement_def next_rowid_def sample_defs)
  from add_product_duplicate_sku [where name = "''Widget''" and category_id = None
      and sku = None and w = ?w and k = "''GEN-WIDG-03071405''" and first_name = "''Widget''"
      and first_category_id = None and first_description = None and first_unit_price = 10
      and first_quantity = 10 and first_min_stock_level = 5 and first_supplier_id = None and first_sku = None
      and w_before = ?e and first_product_id = 3 and description = None and unit_price = 10
      and quantity = 7 and min_stock_level = 5 and supplier_id = None] first r0 r
  have second: "fst (add_product ''Widget'' None None 10 7 5 None None ?w) = None
    \<and> products (snd (add_product ''Widget'' None None 10 7 5 None None ?w)) = products ?w"
    by simp
  have rv: "resolve_sku ''Copy'' None (Some ''GEN-WIDG-03071405'') ?v
              = (Inr ''GEN-WIDG-03071405'', ?v)"
    by (simp add: resolve_sku_def)
  have dup: "\<exists>p \<in> set (products ?v). p_sku p = Some ''GEN-WIDG-03071405''"
    by (simp add: sample_defs)
  from add_product_duplicate_sku [where name = "''Copy''" and category_id = None
      and sku = "Some ''GEN-WIDG-03071405''" and w = ?v and k = "''GEN-WIDG-03071405''"
      and description = None and unit_price = 1 and quantity = 7 and min_stock_level = 0
      and supplier_id = None] rv dup
  have third: "fst (add_product ''Copy'' None None 1 7 0 None (Some ''GEN-WIDG-03071405'') ?v)
                 = None
    \<and> products (snd (add_product ''Copy'' None None 1 7 0 None (Some ''GEN-WIDG-03071405'') ?v))
        = products ?v"
    by simp
  from first second third show ?thesis by (simp add: shop_def)
qed

subsection \<open>Low stock\<close>







subsection \<open>The quantity is the net of the movements\<close>

lemma find_filter_nonempty: "find P xs = Some x \<Longrightarrow> filter P xs \<noteq> []"
  by (induction xs) (auto split: if_splits)


lemma record_stock_movement_nil:
  "faults w = [] \<Longrightarrow>
     snd (record_stock_movement product_id movement_type quantity reference_id notes w)
       = w\<lparr>stock_movements := stock_movements w @
             [\<lparr>m_id = next_rowid (stock_movements_seq w) (map m_id (stock_movements w)),
               m_product_id = product_id, m_movement_type = movement_type,
               m_quantity = quantity, m_reference_id = reference_id, m_notes = notes,
               m_user_id = (case current_user w of Some u \<Rightarrow> Some (u_id u) | None \<Rightarrow> None),
               m_created_at = now w\<rparr>],
           stock_movements_seq :=
             next_rowid (stock_movements_seq w) (map m_id (stock_movements w))\<rparr>"
  by (simp add: record_stock_movement_def execute_insert_nil sql_insert_movement_def Let_def)

lemma adjust_stock_nil:
  assumes perm: "has_permission w ''edit_stock''" and nf: "faults w = []"
    and p: "find (\<lambda>p. p_id p = product_id) (products w) = Some p"
    and ne: "new_quantity \<noteq> p_quantity p"
  shows "adjust_stock product_id new_quantity reason w =
           (True,
            w\<lparr>products :=
                 map (\<lambda>p. if p_id p = product_id
                           then p\<lparr>p_quantity := new_quantity, p_updated_at := now w\<rparr> else p)
                     (products w),
              stock_movements := stock_movements w @
                 [adjustment_row w product_id (new_quantity - p_quantity p) reason],
              stock_movements_seq :=
                 next_rowid (stock_movements_seq w) (map m_id (stock_movements w))\<rparr>)"
proof -
  from find_filter_nonempty [OF p]
  have pos: "0 < length (filter (\<lambda>p. p_id p = product_id) (products w))" by simp
  show ?thesis
    using perm nf p ne pos
    by (simp add: adjust_stock_def get_product_by_id_nil execute_update_nil
          sql_update_quantity_def record_stock_movement_nil adjustment_row_def)
qed








lemma resolve_sku_nil:
  "faults w = [] \<Longrightarrow>
     \<exists>k. resolve_sku name category_id sku w = (Inr k, w)"
  by (simp add: resolve_sku_def execute_query_nil)

lemma get_product_by_sku_nil:
  "faults w = [] \<Longrightarrow>
     get_product_by_sku k w = (find (\<lambda>p. p_sku p = Some k) (products w), w)"
  by (simp add: get_product_by_sku_def execute_query_nil sql_select_product_by_sku_def
        first_row_find)


lemma add_product_written:
  assumes nf: "faults w = []" and perm: "has_permission w ''add_stock''"
    and k: "fst (resolve_sku name category_id sku w) = Inr k"
    and fresh: "\<forall>p \<in> set (products w). p_sku p \<noteq> Some k"
    and res: "add_product name category_id description unit_price quantity min_stock_level
                supplier_id sku w = (r, w')"
  shows "\<exists>row. r = Some (p_id row)
           \<and> p_id row = next_rowid (products_seq w) (map p_id (products w))
           \<and> p_quantity row = quantity \<and> p_sku row = Some k
           \<and> products w' = products w @ [row] \<and> products_seq w' = p_id row
           \<and> faults w' = []
           \<and> (if quantity > 0
               then \<exists>m. stock_movements w' = stock_movements w @ [m]
                      \<and> m_product_id m = p_id row \<and> m_movement_type m = ''in''
                      \<and> m_quantity m = quantity
               else stock_movements w' = stock_movements w)"
proof -
  from resolve_sku_nil [OF nf, of name category_id sku] k
  have r: "resolve_sku name category_id sku w = (Inr k, w)" by auto
  from fresh have f: "find (\<lambda>p. p_sku p = Some k) (products w) = None"
    by (auto simp: find_None_iff)
  from fresh have nodup: "\<not> (\<exists>p \<in> set (products w). p_sku p = Some k)" by auto
  let ?rid = "next_rowid (products_seq w) (map p_id (products w))"
  let ?row = "\<lparr>p_id = ?rid, p_name = name, p_category_id = category_id, p_sku = Some k,
                 p_description = description, p_unit_price = unit_price,
                 p_quantity = quantity, p_min_stock_level = Some min_stock_level,
                 p_supplier_id = supplier_id, p_created_at = now w, p_updated_at = now w\<rparr>"
  let ?w3 = "w\<lparr>products := products w @ [?row], products_seq := ?rid\<rparr>"
  have nf3: "faults ?w3 = []" using nf by simp
  have eq: "add_product name category_id description unit_price quantity min_stock_level
              supplier_id sku w =
            (Some ?rid,
             if quantity > 0
             then snd (record_stock_movement ?rid ''in'' quantity (Some ''Initial stock'')
                         (Some ''Initial inventory'') ?w3)
             else ?w3)"
    using perm nf nodup
    by (simp add: add_product_def r get_product_by_sku_nil f execute_insert_nil
          sql_insert_product_def Let_def)
  show ?thesis
  proof (cases "quantity > 0")
    case True
    with eq res have "r = Some ?rid"
      and "w' = snd (record_stock_movement ?rid ''in'' quantity (Some ''Initial stock'')
                         (Some ''Initial inventory'') ?w3)" by auto
    with True show ?thesis
      by (intro exI [of _ ?row]) (simp add: record_stock_movement_nil [OF nf3] nf)
  next
    case False
    with eq res have "r = Some ?rid" and "w' = ?w3" by auto
    with False show ?thesis
      by (intro exI [of _ ?row]) (simp add: nf)
  qed
qed















subsection \<open>The two writes of \<^verbatim>\<open>adjust_stock\<close>\<close>

lemma next_fault_cases:
  "next_fault w = (f, w1) \<Longrightarrow>
     (faults w = [] \<and> \<not> f \<and> w1 = w) \<or> (faults w = f # faults w1 \<and> w1 = w\<lparr>faults := faults w1\<rparr>)"
  by (auto simp: next_fault_def split: list.splits)

text \<open>
  C2, as amended. \<^verbatim>\<open>adjust_stock\<close> issues up to three statements, each committed on its
  own: the \<^verbatim>\<open>SELECT\<close> of the product, the \<^verbatim>\<open>UPDATE\<close> of its quantity and the \<^verbatim>\<open>INSERT\<close>
  of the movement. In every execution but the one in which the first two succeed and
  the \<^verbatim>\<open>INSERT\<close> fails, either neither table has changed, or the call reports success
  and both writes took effect: the quantity (with \<^verbatim>\<open>updated_at\<close>) is set in the product's
  row and exactly the movement of the difference is appended.
\<close>

theorem adjust_stock_both_or_neither:
  assumes sched: "take 3 (faults w) \<noteq> [False, False, True]"
  shows "(products (snd (adjust_stock product_id new_quantity reason w)) = products w
          \<and> stock_movements (snd (adjust_stock product_id new_quantity reason w))
              = stock_movements w)
         \<or> (fst (adjust_stock product_id new_quantity reason w)
            \<and> (\<exists>p. find (\<lambda>p. p_id p = product_id) (products w) = Some p
                  \<and> new_quantity \<noteq> p_quantity p
                  \<and> products (snd (adjust_stock product_id new_quantity reason w))
                      = map (\<lambda>p. if p_id p = product_id
                                  then p\<lparr>p_quantity := new_quantity, p_updated_at := now w\<rparr>
                                  else p) (products w)
                  \<and> stock_movements (snd (adjust_stock product_id new_quantity reason w))
                      = stock_movements w
                          @ [adjustment_row w product_id (new_quantity - p_quantity p) reason]))"
proof (cases "has_permission w ''edit_stock''")
  case False
  then show ?thesis by (simp add: adjust_stock_def)
next
  case perm: True
  obtain f1 w1 where n1: "next_fault w = (f1, w1)" by (cases "next_fault w")
  note t1 = next_fault_tables [OF n1]
  show ?thesis
  proof (cases "f1 \<or> find (\<lambda>p. p_id p = product_id) (products w) = None")
    case True
    with n1 t1 have "get_product_by_id product_id w = (None, w1)"
      by (cases f1)
         (simp_all add: get_product_by_id_def execute_query_def sql_select_product_by_id_def
            first_row_find)
    with perm t1 show ?thesis by (simp add: adjust_stock_def)
  next
    case False
    then obtain p where f1: "\<not> f1" and p: "find (\<lambda>p. p_id p = product_id) (products w) = Some p"
      by auto
    from perm n1 t1 f1 p
    have g: "get_product_by_id product_id w = (Some p, w1)"
      by (simp add: get_product_by_id_def execute_query_def sql_select_product_by_id_def
            first_row_find)
    show ?thesis
    proof (cases "new_quantity = p_quantity p")
      case True
      with perm g t1 show ?thesis by (simp add: adjust_stock_def)
    next
      case ne: False
      obtain f2 w2 where n2: "next_fault w1 = (f2, w2)" by (cases "next_fault w1")
      note t2 = next_fault_tables [OF n2]
      show ?thesis
      proof (cases f2)
        case True
        with perm g ne n2 t1 t2 show ?thesis
          by (simp add: adjust_stock_def execute_update_def)
      next
        case f2: False
        let ?rows = "map (\<lambda>p. if p_id p = product_id
                                  then p\<lparr>p_quantity := new_quantity, p_updated_at := now w\<rparr>
                                  else p) (products w)"
        let ?w3 = "w2\<lparr>products := ?rows\<rparr>"
        from find_filter_nonempty [OF p]
        have pos: "0 < length (filter (\<lambda>p. p_id p = product_id) (products w))" by simp
        from t1 t2 have e2: "products w2 = products w" "now w2 = now w" by simp_all
        from perm g ne n2 f2 pos
        have a: "adjust_stock product_id new_quantity reason w =
                   (True, snd (record_stock_movement product_id
                                  (if new_quantity - p_quantity p > 0 then ''in'' else ''out'')
                                  \<bar>new_quantity - p_quantity p\<bar>
                                  (Some ''adjustment'')
                                  (if reason = None \<or> reason = Some []
                                   then Some ''Stock adjustment'' else reason) ?w3))"
          by (simp add: adjust_stock_def execute_update_def sql_update_quantity_def e2
                cong: if_cong)
        obtain f3 w4 where n3: "next_fault ?w3 = (f3, w4)" by (cases "next_fault ?w3")
        note t3 = next_fault_tables [OF n3]
        have "\<not> f3"
        proof
          assume f3: f3
          from next_fault_cases [OF n1] f1 n2 n3 f2 f3 next_fault_cases [OF n2]
            next_fault_cases [OF n3]
          have "\<exists>fs. faults w = False # False # True # fs"
            by (auto simp: next_fault_def split: list.splits)
          with sched show False by auto
        qed
        from t1 t2 t3 have e3: "stock_movements w4 = stock_movements w"
          "stock_movements_seq w4 = stock_movements_seq w" "current_user w4 = current_user w"
          "now w4 = now w" "current_user ?w3 = current_user w" "products w4 = ?rows"
          by simp_all
        from \<open>\<not> f3\<close> n3
        have "snd (record_stock_movement product_id
                                  (if new_quantity - p_quantity p > 0 then ''in'' else ''out'')
                                  \<bar>new_quantity - p_quantity p\<bar>
                                  (Some ''adjustment'')
                                  (if reason = None \<or> reason = Some []
                                   then Some ''Stock adjustment'' else reason) ?w3)
              = w4\<lparr>stock_movements := stock_movements w @
                     [adjustment_row w product_id (new_quantity - p_quantity p) reason],
                    stock_movements_seq :=
                      next_rowid (stock_movements_seq w) (map m_id (stock_movements w))\<rparr>"
          by (simp add: record_stock_movement_def execute_insert_def sql_insert_movement_def
                Let_def adjustment_row_def e3)
        with a p ne e3 show ?thesis by simp
      qed
    qed
  qed
qed


lemmas adjust_stock_eval =
  adjust_stock_def has_permission_def get_product_by_id_def execute_query_def
  execute_update_def execute_insert_def next_fault_def sql_select_product_by_id_def
  sql_update_quantity_def sql_insert_movement_def record_stock_movement_def next_rowid_def

text \<open>
  C2, as stated, fails: when the \<^verbatim>\<open>INSERT\<close> of the movement raises after the \<^verbatim>\<open>UPDATE\<close> has
  been committed, \<^verbatim>\<open>record_stock_movement\<close> catches the exception and returns \<^verbatim>\<open>None\<close>,
  \<^verbatim>\<open>adjust_stock\<close> ignores that and returns \<^verbatim>\<open>True\<close>. The quantity is 3, the ledger still
  says 10.
\<close>

theorem adjust_stock_not_atomic_counterexample:
  "adjust_stock 1 3 None ((shop [widget 10] [mv 1 1 ''in'' 10])\<lparr>faults := [False, False, True]\<rparr>)
     = (True, shop [widget 3] [mv 1 1 ''in'' 10])
   \<and> ledger_consistent (shop [widget 10] [mv 1 1 ''in'' 10])
   \<and> \<not> ledger_consistent (shop [widget 3] [mv 1 1 ''in'' 10])"
  by (simp add: adjust_stock_eval sample_defs ledger_consistent_def net_movements_def
        movements_total_def)

theorem adjust_stock_both_or_neither_witness:
  "take 3 (faults (shop [widget 10] [mv 1 1 ''in'' 10])) \<noteq> [False, False, True]
   \<and> adjust_stock 1 3 (Some ''damage'') (shop [widget 10] [mv 1 1 ''in'' 10])
       = (True, (shop [widget 3]
                   [mv 1 1 ''in'' 10,
                    (mv 2 1 ''out'' 7)\<lparr>m_reference_id := Some ''adjustment'',
                                       m_notes := Some ''damage''\<rparr>])
                  \<lparr>stock_movements_seq := 2\<rparr>)
   \<and> take 3 (faults ((shop [widget 10] [mv 1 1 ''in'' 10])\<lparr>faults := [False, True]\<rparr>))
        \<noteq> [False, False, True]
   \<and> adjust_stock 1 3 (Some ''damage'')
        ((shop [widget 10] [mv 1 1 ''in'' 10])\<lparr>faults := [False, True]\<rparr>)
       = (False, shop [widget 10] [mv 1 1 ''in'' 10])"
proof -
  let ?w = "shop [widget 10] [mv 1 1 ''in'' 10]"
  let ?v = "?w\<lparr>faults := [False, True]\<rparr>"
  have h1: "take 3 (faults ?w) \<noteq> [False, False, True]" by (simp add: shop_def)
  have h2: "take 3 (faults ?v) \<noteq> [False, False, True]" by simp
  have e1: "adjust_stock 1 3 (Some ''damage'') ?w
       = (True, (shop [widget 3]
                   [mv 1 1 ''in'' 10,
                    (mv 2 1 ''out'' 7)\<lparr>m_reference_id := Some ''adjustment'',
                                       m_notes := Some ''damage''\<rparr>])
                  \<lparr>stock_movements_seq := 2\<rparr>)"
    by (simp add: adjust_stock_eval sample_defs)
  have e2: "adjust_stock 1 3 (Some ''damage'') ?v = (False, ?w)"
    by (simp add: adjust_stock_eval sample_defs)
  note both = adjust_stock_both_or_neither [OF h1, of 1 3 "Some ''damage''"]
  note neither = adjust_stock_both_or_neither [OF h2, of 1 3 "Some ''damage''"]
  from both neither h1 h2 e1 e2 show ?thesis by simp
qed

subsection \<open>Negative quantities\<close>

text \<open>
  C3, as amended. A negative quantity is refused, with an error message and before
  anything is written, by the dialogs that call the engine:
  \<^verbatim>\<open>StockAdjustmentDialog.adjust_stock\<close> shows \<^verbatim>\<open>Quantity cannot be negative.\<close> and
  \<^verbatim>\<open>ProductDialog.save_product\<close> shows a \<^verbatim>\<open>Validation Error\<close> (for the quantity, when the
  name and the price pass). \<^verbatim>\<open>StockManager.adjust_stock\<close> and \<^verbatim>\<open>add_product\<close> do not look
  at the sign: called with a negative quantity by a user with the permission, when no
  statement fails, \<^verbatim>\<open>adjust_stock\<close> on an existing product with another quantity returns
  \<^verbatim>\<open>True\<close>, stores the quantity and appends the movement of the difference, and
  \<^verbatim>\<open>add_product\<close> with a new SKU returns the new id and writes the product row with that
  quantity and no movement.
\<close>

theorem negative_quantity_checked_by_dialogs:
  "(new_quantity < 0 \<longrightarrow>
      dialog_adjust_stock product new_quantity reason_text notes_text w
        = (Showerror ''Error'' ''Quantity cannot be negative.'', w))
   \<and> (f_quantity form < 0 \<longrightarrow>
        (\<exists>msg. save_product editing form w = (Showerror ''Validation Error'' msg, w)
               \<and> (strip (f_name form) \<noteq> [] \<and> 0 \<le> f_unit_price form \<longrightarrow>
                    msg = ''Quantity must be non-negative.'')))
   \<and> (new_quantity < 0 \<and> has_permission w ''edit_stock'' \<and> faults w = []
        \<and> find (\<lambda>p. p_id p = product_id) (products w) = Some p
        \<and> new_quantity \<noteq> p_quantity p \<longrightarrow>
        adjust_stock product_id new_quantity reason w =
           (True,
            w\<lparr>products :=
                 map (\<lambda>p. if p_id p = product_id
                           then p\<lparr>p_quantity := new_quantity, p_updated_at := now w\<rparr> else p)
                     (products w),
              stock_movements := stock_movements w @
                 [adjustment_row w product_id (new_quantity - p_quantity p) reason],
              stock_movements_seq :=
                 next_rowid (stock_movements_seq w) (map m_id (stock_movements w))\<rparr>))
   \<and> (quantity < 0 \<and> has_permission w ''add_stock'' \<and> faults w = []
        \<and> fst (resolve_sku name category_id sku w) = Inr k
        \<and> (\<forall>q \<in> set (products w). p_sku q \<noteq> Some k) \<longrightarrow>
        (\<exists>row. fst (add_product name category_id description unit_price quantity
                       min_stock_level supplier_id sku w) = Some (p_id row)
               \<and> p_quantity row = quantity
               \<and> products (snd (add_product name category_id description unit_price quantity
                                   min_stock_level supplier_id sku w)) = products w @ [row]
               \<and> stock_movements (snd (add_product name category_id description unit_price
                                          quantity min_stock_level supplier_id sku w))
                   = stock_movements w))"
proof (intro conjI impI)
  assume "new_quantity < 0"
  then show "dialog_adjust_stock product new_quantity reason_text notes_text w
        = (Showerror ''Error'' ''Quantity cannot be negative.'', w)"
    by (simp add: dialog_adjust_stock_def)
next
  assume "f_quantity form < 0"
  then show "\<exists>msg. save_product editing form w = (Showerror ''Validation Error'' msg, w)
               \<and> (strip (f_name form) \<noteq> [] \<and> 0 \<le> f_unit_price form \<longrightarrow>
                    msg = ''Quantity must be non-negative.'')"
    by (simp add: save_product_def Let_def)
next
  assume "new_quantity < 0 \<and> has_permission w ''edit_stock'' \<and> faults w = []
        \<and> find (\<lambda>p. p_id p = product_id) (products w) = Some p
        \<and> new_quantity \<noteq> p_quantity p"
  then show "adjust_stock product_id new_quantity reason w =
           (True,
            w\<lparr>products :=
                 map (\<lambda>p. if p_id p = product_id
                           then p\<lparr>p_quantity := new_quantity, p_updated_at := now w\<rparr> else p)
                     (products w),
              stock_movements := stock_movements w @
                 [adjustment_row w product_id (new_quantity - p_quantity p) reason],
              stock_movements_seq :=
                 next_rowid (stock_movements_seq w) (map m_id (stock_movements w))\<rparr>)"
    using adjust_stock_nil by blast
next
  assume a: "quantity < 0 \<and> has_permission w ''add_stock'' \<and> faults w = []
        \<and> fst (resolve_sku name category_id sku w) = Inr k
        \<and> (\<forall>q \<in> set (products w). p_sku q \<noteq> Some k)"
  obtain r w' where res: "add_product name category_id description unit_price quantity
      min_stock_level supplier_id sku w = (r, w')"
    by (cases "add_product name category_id description unit_price quantity
      min_stock_level supplier_id sku w")
  from a have nf: "faults w = []" and perm: "has_permission w ''add_stock''"
    and k: "fst (resolve_sku name category_id sku w) = Inr k"
    and fresh: "\<forall>q \<in> set (products w). p_sku q \<noteq> Some k" and neg: "quantity < 0" by auto
  from add_product_written [OF nf perm k fresh res] neg
  obtain row where "r = Some (p_id row)" "p_quantity row = quantity"
    "products w' = products w @ [row]" "stock_movements w' = stock_movements w"
    by (auto split: if_splits)
  with res show "\<exists>row. fst (add_product name category_id description unit_price quantity
                       min_stock_level supplier_id sku w) = Some (p_id row)
               \<and> p_quantity row = quantity
               \<and> products (snd (add_product name category_id description unit_price quantity
                                   min_stock_level supplier_id sku w)) = products w @ [row]
               \<and> stock_movements (snd (add_product name category_id description unit_price
                                          quantity min_stock_level supplier_id sku w))
                   = stock_movements w"
    by auto
qed

text \<open>
  C3, as stated, fails: \<^verbatim>\<open>adjust_stock(1, -1)\<close> on a product with quantity 10 returns
  \<^verbatim>\<open>True\<close>, stores -1 and writes an \<^verbatim>\<open>out\<close> movement of 11; \<^verbatim>\<open>add_product\<close> with
  \<^verbatim>\<open>quantity=-1\<close> returns the new id and writes the product row.
\<close>

theorem negative_quantity_accepted_counterexample:
  "adjust_stock 1 (- 1) None (shop [widget 10] [mv 1 1 ''in'' 10])
     = (True, (shop [widget (- 1)]
                 [mv 1 1 ''in'' 10,
                  (mv 2 1 ''out'' 11)\<lparr>m_reference_id := Some ''adjustment'',
                                      m_notes := Some ''Stock adjustment''\<rparr>])
                \<lparr>stock_movements_seq := 2\<rparr>)
   \<and> add_product ''Widget'' None None 10 (- 1) 5 None None (shop [] [])
     = (Some 3, (shop [(widget (- 1))\<lparr>p_id := 3\<rparr>] [])\<lparr>products_seq := 3\<rparr>)"
  by (simp add: adjust_stock_eval add_product_def resolve_sku_def generate_sku_widget
        get_product_by_sku_def sql_select_product_by_sku_def sql_insert_product_def
        sample_defs)


theorem negative_quantity_checked_by_dialogs_witness:
  "dialog_adjust_stock (widget 10) (- 1) ''Lost Items'' ''recount''
       (shop [widget 10] [mv 1 1 ''in'' 10])
     = (Showerror ''Error'' ''Quantity cannot be negative.'', shop [widget 10] [mv 1 1 ''in'' 10])
   \<and> save_product None (bolt_form (- 1)) (shop [widget 10] [mv 1 1 ''in'' 10])
     = (Showerror ''Validation Error'' ''Quantity must be non-negative.'',
        shop [widget 10] [mv 1 1 ''in'' 10])
   \<and> fst (adjust_stock 1 (- 1) None (shop [widget 10] [mv 1 1 ''in'' 10]))
   \<and> map p_quantity (products (snd (adjust_stock 1 (- 1) None
                                       (shop [widget 10] [mv 1 1 ''in'' 10])))) = [- 1]
   \<and> map p_quantity (products (snd (add_product ''Bolt'' None None 1 (- 1) 0 None (Some ''B-1'')
                                       (shop [widget 10] [mv 1 1 ''in'' 10])))) = [10, - 1]
   \<and> stock_movements (snd (add_product ''Bolt'' None None 1 (- 1) 0 None (Some ''B-1'')
                              (shop [widget 10] [mv 1 1 ''in'' 10]))) = [mv 1 1 ''in'' 10]"
proof -
  let ?w = "shop [widget 10] [mv 1 1 ''in'' 10]"
  note T = negative_quantity_checked_by_dialogs [where new_quantity = "- 1"
      and product = "widget 10" and reason_text = "''Lost Items''" and notes_text = "''recount''"
      and w = ?w and form = "bolt_form (- 1)" and editing = None and product_id = 1
      and p = "widget 10" and reason = None and quantity = "- 1" and name = "''Bolt''"
      and category_id = None and sku = "Some ''B-1''" and k = "''B-1''" and description = None
      and unit_price = 1 and min_stock_level = 0 and supplier_id = None]
  from T have a: "dialog_adjust_stock (widget 10) (- 1) ''Lost Items'' ''recount'' ?w
     = (Showerror ''Error'' ''Quantity cannot be negative.'', ?w)"
    by simp
  have q: "f_quantity (bolt_form (- 1)) < 0" by (simp add: bolt_form_def)
  have nm: "strip (f_name (bolt_form (- 1))) \<noteq> [] \<and> 0 \<le> f_unit_price (bolt_form (- 1))"
    by (simp add: bolt_form_def strip_def isspace_def)
  from T q obtain msg where
    "save_product None (bolt_form (- 1)) ?w = (Showerror ''Validation Error'' msg, ?w)"
    and "strip (f_name (bolt_form (- 1))) \<noteq> [] \<and> 0 \<le> f_unit_price (bolt_form (- 1)) \<longrightarrow>
           msg = ''Quantity must be non-negative.''"
    by blast
  with nm have b: "save_product None (bolt_form (- 1)) ?w
     = (Showerror ''Validation Error'' ''Quantity must be non-negative.'', ?w)"
    by simp
  have h3: "(- 1 :: int) < 0 \<and> has_permission ?w ''edit_stock'' \<and> faults ?w = []
        \<and> find (\<lambda>p. p_id p = 1) (products ?w) = Some (widget 10)
        \<and> - 1 \<noteq> p_quantity (widget 10)"
    by (simp add: has_permission_def sample_defs)
  from T h3 have "adjust_stock 1 (- 1) None ?w =
           (True,
            ?w\<lparr>products :=
                 map (\<lambda>p. if p_id p = 1
                           then p\<lparr>p_quantity := - 1, p_updated_at := now ?w\<rparr> else p)
                     (products ?w),
              stock_movements := stock_movements ?w @
                 [adjustment_row ?w 1 (- 1 - p_quantity (widget 10)) None],
              stock_movements_seq :=
                 next_rowid (stock_movements_seq ?w) (map m_id (stock_movements ?w))\<rparr>)"
    by blast
  then have c: "fst (adjust_stock 1 (- 1) None ?w)
      \<and> map p_quantity (products (snd (adjust_stock 1 (- 1) None ?w))) = [- 1]"
    by (simp add: sample_defs)
  have h4: "(- 1 :: int) < 0 \<and> has_permission ?w ''add_stock'' \<and> faults ?w = []
        \<and> fst (resolve_sku ''Bolt'' None (Some ''B-1'') ?w) = Inr ''B-1''
        \<and> (\<forall>q \<in> set (products ?w). p_sku q \<noteq> Some ''B-1'')"
    by (simp add: has_permission_def resolve_sku_def sample_defs)
  from T h4 obtain row where "p_quantity row = - 1"
    "products (snd (add_product ''Bolt'' None None 1 (- 1) 0 None (Some ''B-1'') ?w))
       = products ?w @ [row]"
    "stock_movements (snd (add_product ''Bolt'' None None 1 (- 1) 0 None (Some ''B-1'') ?w))
       = stock_movements ?w"
    by blast
  then have d: "map p_quantity (products (snd (add_product ''Bolt'' None None 1 (- 1) 0 None
                   (Some ''B-1'') ?w))) = [10, - 1]
      \<and> stock_movements (snd (add_product ''Bolt'' None None 1 (- 1) 0 None (Some ''B-1'') ?w))
          = [mv 1 1 ''in'' 10]"
    by (simp add: shop_def widget_def)
  from a b c d show ?thesis by blast
qed

end
